theory Spec2Isabelle
  imports Complex_Main "HOL-Library.Word"
begin

section \<open>Scene rendering for the CEC1 challenge: data model\<close>

text \<open>
  The development embeds \<^verbatim>\<open>clarity/data/scene_renderer_cec1.py\<close>. Samples are
  modelled as \<^typ>\<open>real\<close> numbers, so every arithmetic step is exact; the statements
  below are about shapes, data flow, file names and failures, none of which depends on
  rounding.

  An array is one-dimensional (a mono signal) or two-dimensional (frames by channels, kept
  as a list of rows together with the number of columns). These are the shapes that the
  sound-file reader, \<^verbatim>\<open>np.pad\<close> and \<^verbatim>\<open>np.vstack(...).T\<close> produce.
\<close>

datatype 'a ndarray = Arr1 "'a list" | Arr2 nat "'a list list"

text \<open>Every exception the module can raise is a value of this type.\<close>

datatype error =
    ReadException          \<comment> \<open>\<^verbatim>\<open>Exception("Unable to read ...")\<close>\<close>
  | ChannelException       \<comment> \<open>\<^verbatim>\<open>Exception("... was expected to have n channels.")\<close>\<close>
  | SampleRateException    \<comment> \<open>\<^verbatim>\<open>Exception("Sampling rate is not ...")\<close>\<close>
  | SeekError              \<comment> \<open>the sound-file library refusing a seek position\<close>
  | LengthMismatch nat nat \<comment> \<open>the \<^verbatim>\<open>ValueError\<close> of \<^verbatim>\<open>compute_snr\<close>, with both lengths\<close>
  | BroadcastError         \<comment> \<open>numpy's \<^verbatim>\<open>ValueError\<close>: operands could not be broadcast\<close>
  | ValueError             \<comment> \<open>any other \<^verbatim>\<open>ValueError\<close> of numpy\<close>
  | IndexError
  | KeyError
  | UnboundLocalError
  | AssertionError
  | UtilityError           \<comment> \<open>a failure inside \<^verbatim>\<open>clarity.data.utils\<close>\<close>

definition ebind :: "error + 'a \<Rightarrow> ('a \<Rightarrow> error + 'b) \<Rightarrow> error + 'b" where
  "ebind m f = (case m of Inl e \<Rightarrow> Inl e | Inr x \<Rightarrow> f x)"

text \<open>\<^verbatim>\<open>len(a)\<close> and \<^verbatim>\<open>len(np.shape(a))\<close>.\<close>

fun len :: "'a ndarray \<Rightarrow> nat" where
  "len (Arr1 xs) = length xs"
| "len (Arr2 c rows) = length rows"

fun ndim :: "'a ndarray \<Rightarrow> nat" where
  "ndim (Arr1 xs) = 1"
| "ndim (Arr2 c rows) = 2"

text \<open>\<^verbatim>\<open>a.shape\<close>, as the list of axis lengths.\<close>

fun shape :: "'a ndarray \<Rightarrow> nat list" where
  "shape (Arr1 xs) = [length xs]"
| "shape (Arr2 c rows) = [length rows, c]"

text \<open>Python's \<^verbatim>\<open>int(x)\<close> on a float truncates towards zero.\<close>

definition py_int :: "real \<Rightarrow> int" where
  "py_int x = (if 0 \<le> x then \<lfloor>x\<rfloor> else \<lceil>x\<rceil>)"

text \<open>
  Python's slice \<^verbatim>\<open>xs[lo:hi]\<close>: a negative bound counts from the end, and both bounds
  are clipped to the sequence.
\<close>

definition py_index :: "nat \<Rightarrow> int \<Rightarrow> nat" where
  "py_index L i = (if i < 0 then nat (max 0 (int L + i)) else min (nat i) L)"

definition py_slice :: "int \<Rightarrow> int \<Rightarrow> 'a list \<Rightarrow> 'a list" where
  "py_slice lo hi xs =
     (let a = py_index (length xs) lo; b = py_index (length xs) hi
      in take (b - a) (drop a xs))"

text \<open>\<^verbatim>\<open>a[lo:hi]\<close> slices the first axis of an array.\<close>

fun slice_rows :: "int \<Rightarrow> int \<Rightarrow> 'a ndarray \<Rightarrow> 'a ndarray" where
  "slice_rows lo hi (Arr1 xs) = Arr1 (py_slice lo hi xs)"
| "slice_rows lo hi (Arr2 c rows) = Arr2 c (py_slice lo hi rows)"

text \<open>\<^verbatim>\<open>a[:, j]\<close>: defined on two-dimensional arrays with more than \<open>j\<close> columns.\<close>

fun column :: "'a ndarray \<Rightarrow> nat \<Rightarrow> error + 'a list" where
  "column (Arr1 xs) j = Inl IndexError"
| "column (Arr2 c rows) j = (if j < c then Inr (map (\<lambda>r. r ! j) rows) else Inl IndexError)"

text \<open>\<^verbatim>\<open>a * g\<close> for a scalar \<open>g\<close>.\<close>

fun scale :: "real ndarray \<Rightarrow> real \<Rightarrow> real ndarray" where
  "scale (Arr1 xs) g = Arr1 (map (\<lambda>x. x * g) xs)"
| "scale (Arr2 c rows) g = Arr2 c (map (map (\<lambda>x. x * g)) rows)"

section \<open>The renderer and its configuration\<close>

record renderer =
  input_path :: string
  output_path :: string
  sample_rate :: int
  ramp_duration :: real
  n_tail :: int
  pre_duration :: real
  post_duration :: real
  test_nbits :: int
  channels :: "int list"

text \<open>
  \<^verbatim>\<open>Renderer.__init__\<close>. The channel sequence is empty for \<open>num_channels = 0\<close> and
  \<^verbatim>\<open>list(range(1, num_channels + 1)) + [0]\<close> otherwise.
\<close>

definition Renderer_init ::
  "string \<Rightarrow> string \<Rightarrow> int \<Rightarrow> int \<Rightarrow> real \<Rightarrow> real \<Rightarrow> real \<Rightarrow> real \<Rightarrow> int \<Rightarrow> renderer" where
  "Renderer_init inp outp num_channels sr ramp_d tail_d pre_d post_d nbits =
     \<lparr> input_path = inp, output_path = outp, sample_rate = sr, ramp_duration = ramp_d,
       n_tail = py_int (tail_d * real_of_int sr), pre_duration = pre_d,
       post_duration = post_d, test_nbits = nbits,
       channels = (if num_channels = 0 then [] else [1..num_channels] @ [0]) \<rparr>"

section \<open>The BRIR convolver\<close>

text \<open>
  The linear convolution of two sequences, of length \<open>length a + length b - 1\<close> when
  neither is empty.
\<close>

fun add_padded :: "real list \<Rightarrow> real list \<Rightarrow> real list" where
  "add_padded [] ys = ys"
| "add_padded xs [] = xs"
| "add_padded (x # xs) (y # ys) = (x + y) # add_padded xs ys"

fun linear_convolution :: "real list \<Rightarrow> real list \<Rightarrow> real list" where
  "linear_convolution [] ys = []"
| "linear_convolution (x # xs) ys =
     (if ys = [] then []
      else add_padded (map (\<lambda>y. x * y) ys) (0 # linear_convolution xs ys))"

text \<open>
  \<^verbatim>\<open>scipy.signal.convolve(a, b, mode="full", method="fft")\<close> on one-dimensional
  inputs: the linear convolution, and an \<^verbatim>\<open>IndexError\<close> when an input is empty.
\<close>

definition convolve :: "real list \<Rightarrow> real list \<Rightarrow> error + real list" where
  "convolve a b = (if a = [] \<or> b = [] then Inl IndexError else Inr (linear_convolution a b))"

text \<open>
  \<^verbatim>\<open>np.squeeze\<close> drops every axis of length one, so its result may have no axis left.
\<close>

datatype 'a squeezed = Sq0 'a | SqArr "'a ndarray"

fun squeeze :: "'a ndarray \<Rightarrow> 'a squeezed" where
  "squeeze (Arr1 xs) = (if length xs = 1 then Sq0 (hd xs) else SqArr (Arr1 xs))"
| "squeeze (Arr2 c rows) =
     (if length rows = 1 \<and> c = 1 then Sq0 (hd (concat rows))
      else if length rows = 1 \<or> c = 1 then SqArr (Arr1 (concat rows))
      else SqArr (Arr2 c rows))"

fun ndim_sq :: "'a squeezed \<Rightarrow> nat" where
  "ndim_sq (Sq0 x) = 0"
| "ndim_sq (SqArr a) = ndim a"

fun column_sq :: "'a squeezed \<Rightarrow> nat \<Rightarrow> error + 'a list" where
  "column_sq (Sq0 x) j = Inl IndexError"
| "column_sq (SqArr a) j = column a j"

text \<open>\<^verbatim>\<open>np.vstack([l, r]).T\<close>: the two rows must have one length.\<close>

definition vstack_T :: "'a list \<Rightarrow> 'a list \<Rightarrow> error + 'a ndarray" where
  "vstack_T l r =
     (if length l = length r then Inr (Arr2 2 (map (\<lambda>(a, b). [a, b]) (zip l r)))
      else Inl ValueError)"

text \<open>
  \<^verbatim>\<open>Renderer.apply_brir\<close>. The result pairs what the call logs with what it returns or
  raises. In the last branch the source only logs; \<^verbatim>\<open>signal_l\<close> is then unassigned
  when the next line reads it.
\<close>

definition apply_brir ::
  "renderer \<Rightarrow> real ndarray \<Rightarrow> real ndarray \<Rightarrow> string list \<times> (error + real ndarray)" where
  "apply_brir self signal brir =
     (let output_len = int (len signal) + n_tail self;
          brir = squeeze brir
      in if ndim signal = 1 \<and> ndim_sq brir = 2 then
           ([], case signal of
                  Arr1 s \<Rightarrow>
                    ebind (column_sq brir 0) (\<lambda>b0. ebind (convolve s b0) (\<lambda>signal_l.
                    ebind (column_sq brir 1) (\<lambda>b1. ebind (convolve s b1) (\<lambda>signal_r.
                    ebind (vstack_T signal_l signal_r)
                      (\<lambda>output. Inr (slice_rows 0 output_len output))))))
                | Arr2 c rows \<Rightarrow> Inl ValueError)
         else if ndim signal = 2 \<and> ndim_sq brir = 2 then
           ([], ebind (column signal 0) (\<lambda>s0. ebind (column_sq brir 0) (\<lambda>b0.
                ebind (convolve s0 b0) (\<lambda>signal_l.
                ebind (column signal 1) (\<lambda>s1. ebind (column_sq brir 1) (\<lambda>b1.
                ebind (convolve s1 b1) (\<lambda>signal_r.
                ebind (vstack_T signal_l signal_r)
                  (\<lambda>output. Inr (slice_rows 0 output_len output)))))))))
         else ([''Signal does not have the required shape.''], Inl UnboundLocalError))"

section \<open>The ramp shaper\<close>

text \<open>\<^verbatim>\<open>np.linspace(a, b, n)\<close>: \<open>n\<close> evenly spaced points from \<open>a\<close> to \<open>b\<close>.\<close>

definition linspace :: "real \<Rightarrow> real \<Rightarrow> nat \<Rightarrow> real list" where
  "linspace a b n = map (\<lambda>i. a + real i * ((b - a) / real (n - 1))) [0..<n]"

text \<open>
  The half-cosine window of \<^verbatim>\<open>apply_ramp\<close>. \<^verbatim>\<open>np.linspace\<close> raises a
  \<^verbatim>\<open>ValueError\<close> for a negative number of points.
\<close>

definition ramp_window :: "renderer \<Rightarrow> real \<Rightarrow> error + real list" where
  "ramp_window self d =
     (let k = py_int (real_of_int (sample_rate self) * d)
      in if k < 0 then Inl ValueError
         else Inr (map (\<lambda>t. (cos t + 1) / 2) (linspace pi (2 * pi) (nat k))))"

text \<open>
  numpy's in-place product \<^verbatim>\<open>view *= w\<close> with a one-dimensional \<open>w\<close>: \<open>w\<close> is
  broadcast along the last axis of the view, and the broadcast shape must be the view's.
\<close>

definition bcast_mul_list :: "real list \<Rightarrow> real list \<Rightarrow> error + real list" where
  "bcast_mul_list v w =
     (if length w = length v then Inr (map (\<lambda>(x, y). x * y) (zip v w))
      else if length w = 1 then Inr (map (\<lambda>x. x * hd w) v)
      else Inl BroadcastError)"

definition bcast_mul_rows :: "nat \<Rightarrow> real list list \<Rightarrow> real list \<Rightarrow> error + real list list" where
  "bcast_mul_rows c rows w =
     (if length w = c then Inr (map (\<lambda>r. map (\<lambda>(x, y). x * y) (zip r w)) rows)
      else if length w = 1 then Inr (map (map (\<lambda>x. x * hd w)) rows)
      else Inl BroadcastError)"

text \<open>\<^verbatim>\<open>a[lo:hi] *= w\<close>.\<close>

fun imul_slice :: "int \<Rightarrow> int \<Rightarrow> real ndarray \<Rightarrow> real list \<Rightarrow> error + real ndarray" where
  "imul_slice lo hi (Arr1 xs) w =
     (let a = py_index (length xs) lo; b = py_index (length xs) hi
      in ebind (bcast_mul_list (take (b - a) (drop a xs)) w)
           (\<lambda>v. Inr (Arr1 (take a xs @ v @ drop (a + length v) xs))))"
| "imul_slice lo hi (Arr2 c rows) w =
     (let a = py_index (length rows) lo; b = py_index (length rows) hi
      in ebind (bcast_mul_rows c (take (b - a) (drop a rows)) w)
           (\<lambda>v. Inr (Arr2 c (take a rows @ v @ drop (a + length v) rows))))"

text \<open>
  \<^verbatim>\<open>Renderer.apply_ramp\<close>: the first \<^verbatim>\<open>len(ramp)\<close> samples are multiplied by the
  rising window, then the slice \<^verbatim>\<open>[-len(ramp):]\<close> by the reversed window.
\<close>

definition apply_ramp :: "renderer \<Rightarrow> real ndarray \<Rightarrow> real \<Rightarrow> error + real ndarray" where
  "apply_ramp self signal d =
     ebind (ramp_window self d) (\<lambda>ramp.
       ebind (imul_slice 0 (int (length ramp)) signal ramp) (\<lambda>signal_ramped.
         imul_slice (- int (length ramp)) (int (len signal_ramped)) signal_ramped (rev ramp)))"

section \<open>The reference-SNR estimator\<close>

text \<open>
  The helpers of \<^verbatim>\<open>clarity.data.utils\<close> are not part of the module; the model takes
  them as parameters.
\<close>

record utils =
  better_ear_speechweighted_snr :: "real ndarray \<Rightarrow> real ndarray \<Rightarrow> real"
  pad :: "real ndarray \<Rightarrow> nat \<Rightarrow> error + real ndarray"
  sum_signals :: "real ndarray list \<Rightarrow> error + real ndarray"

text \<open>
  \<^verbatim>\<open>Renderer.compute_snr\<close>. Its first two statements assign \<^verbatim>\<open>pre_samples\<close> and
  \<^verbatim>\<open>post_samples\<close> anew from the configuration, as the inner bindings do here.
\<close>

definition compute_snr ::
  "renderer \<Rightarrow> (real ndarray \<Rightarrow> real ndarray \<Rightarrow> real) \<Rightarrow> real ndarray \<Rightarrow> real ndarray \<Rightarrow>
     int \<Rightarrow> int \<Rightarrow> error + real" where
  "compute_snr self metric target noise pre_samples post_samples =
     (let pre_samples = py_int (real_of_int (sample_rate self) * pre_duration self);
          post_samples = py_int (real_of_int (sample_rate self) * post_duration self);
          segment_target = slice_rows pre_samples (- post_samples) target;
          segment_noise = slice_rows pre_samples (- post_samples) noise
      in if len segment_target \<noteq> len segment_noise
         then Inl (LengthMismatch (len segment_target) (len segment_noise))
         else Inr (metric segment_target segment_noise))"

section \<open>Signal input and output\<close>

text \<open>
  A stored sound file: its sample rate, its number of channels and its frames. The reader
  returns a one-dimensional array for a mono file and frames by channels otherwise.
\<close>

record wav =
  wav_rate :: int
  wav_channels :: nat
  wav_frames :: "real list list"

definition frames_array :: "nat \<Rightarrow> real list list \<Rightarrow> real ndarray" where
  "frames_array ch frames = (if ch = 1 then Arr1 (concat frames) else Arr2 ch frames)"

text \<open>
  \<^verbatim>\<open>Renderer.read_signal\<close>. \<^verbatim>\<open>seek\<close> accepts positions from 0 to the number of
  frames; \<^verbatim>\<open>read(frames=n)\<close> returns what is left when \<open>n\<close> is negative or too large.
\<close>

definition read_signal ::
  "renderer \<Rightarrow> (string \<rightharpoonup> wav) \<Rightarrow> string \<Rightarrow> int \<Rightarrow> int \<Rightarrow> nat \<Rightarrow> bool \<Rightarrow> error + real ndarray" where
  "read_signal self fs filename offset nsamples nchannels offset_is_samples =
     (case fs filename of
        None \<Rightarrow> Inl ReadException
      | Some wave_file \<Rightarrow>
          if nchannels \<noteq> 0 \<and> nchannels \<noteq> wav_channels wave_file then Inl ChannelException
          else if wav_rate wave_file \<noteq> sample_rate self then Inl SampleRateException
          else
            (let offset = (if \<not> offset_is_samples then offset * wav_rate wave_file else offset);
                 total = length (wav_frames wave_file)
             in if offset \<noteq> 0 \<and> (offset < 0 \<or> int total < offset) then Inl SeekError
                else
                  (let rest = drop (nat offset) (wav_frames wave_file);
                       n = (if nsamples < 0 \<or> int (length rest) < nsamples then length rest
                            else nat nsamples)
                   in Inr (frames_array (wav_channels wave_file) (take n rest)))))"

datatype subtype = PCM_16 | PCM_24 | FLOAT

datatype payload = Floats "real ndarray" | Int16s "16 word ndarray"

text \<open>The arguments of one call \<^verbatim>\<open>soundfile.write(filename, signal, sample_rate, subtype)\<close>.\<close>

record sf_write =
  w_subtype :: subtype
  w_data :: payload
  w_rate :: int

text \<open>
  \<^verbatim>\<open>astype(int16)\<close> on a float: the integer part wrapped to 16 bits while it fits 32
  bits, and 0 beyond that range.
\<close>

definition astype_int16 :: "real \<Rightarrow> 16 word" where
  "astype_int16 x =
     (if - 2147483648 \<le> py_int x \<and> py_int x \<le> 2147483647 then word_of_int (py_int x) else 0)"

fun elements :: "'a ndarray \<Rightarrow> 'a list" where
  "elements (Arr1 xs) = xs"
| "elements (Arr2 c rows) = concat rows"

fun map_array :: "('a \<Rightarrow> 'b) \<Rightarrow> 'a ndarray \<Rightarrow> 'b ndarray" where
  "map_array f (Arr1 xs) = Arr1 (map f xs)"
| "map_array f (Arr2 c rows) = Arr2 c (map (map f) rows)"

text \<open>\<^verbatim>\<open>np.max\<close> and \<^verbatim>\<open>np.min\<close> raise a \<^verbatim>\<open>ValueError\<close> on an empty array.\<close>

definition np_max :: "int list \<Rightarrow> error + int" where
  "np_max xs = (if xs = [] then Inl ValueError else Inr (fold max (tl xs) (hd xs)))"

definition np_min :: "int list \<Rightarrow> error + int" where
  "np_min xs = (if xs = [] then Inl ValueError else Inr (fold min (tl xs) (hd xs)))"

text \<open>
  \<^verbatim>\<open>Renderer.write_signal\<close>: the warnings it logs, and the write it performs or the
  exception it raises. With \<^verbatim>\<open>floating_point\<close> false and a bit depth other than 16 or
  24 no branch assigns \<^verbatim>\<open>subtype\<close>.
\<close>

definition write_signal ::
  "renderer \<Rightarrow> string \<Rightarrow> real ndarray \<Rightarrow> int \<Rightarrow> bool \<Rightarrow>
     string list \<times> (error + string \<times> sf_write)" where
  "write_signal self filename signal rate floating_point =
     (if rate \<noteq> sample_rate self then [''Sampling rate mismatch''] else [],
      if \<not> floating_point then
        if test_nbits self = 16 then
          (let signal16 = map_array (\<lambda>x. astype_int16 (x * 32768)) signal
           in ebind (np_max (map sint (elements signal16))) (\<lambda>hi.
                ebind (np_min (map sint (elements signal16))) (\<lambda>lo.
                  if hi \<le> 32767 \<and> lo \<ge> - 32768
                  then Inr (filename, \<lparr> w_subtype = PCM_16, w_data = Int16s signal16, w_rate = rate \<rparr>)
                  else Inl AssertionError)))
        else if test_nbits self = 24 then
          Inr (filename, \<lparr> w_subtype = PCM_24, w_data = Floats signal, w_rate = rate \<rparr>)
        else Inl UnboundLocalError
      else Inr (filename, \<lparr> w_subtype = FLOAT, w_data = Floats signal, w_rate = rate \<rparr>))"

section \<open>The scene renderer\<close>

text \<open>The text of an integer inside an f-string: \<^verbatim>\<open>f"{channel}"\<close>.\<close>

definition str_digit :: "nat \<Rightarrow> char" where
  "str_digit d = ''0123456789'' ! d"

fun str_nat :: "nat \<Rightarrow> string" where
  "str_nat n = (if n < 10 then [str_digit n] else str_nat (n div 10) @ [str_digit (n mod 10)])"

declare str_nat.simps [simp del]

definition str_int :: "int \<Rightarrow> string" where
  "str_int i = (if i < 0 then CHR ''-'' # str_nat (nat (- i)) else str_nat (nat i))"

text \<open>
  \<^verbatim>\<open>np.pad(a, [(pre, post)])\<close> pads every axis with \<open>pre\<close> zeros before and \<open>post\<close>
  zeros after, and raises a \<^verbatim>\<open>ValueError\<close> for a negative width.
\<close>

definition np_pad :: "real ndarray \<Rightarrow> int \<Rightarrow> int \<Rightarrow> error + real ndarray" where
  "np_pad a pre post =
     (if pre < 0 \<or> post < 0 then Inl ValueError
      else case a of
        Arr1 xs \<Rightarrow> Inr (Arr1 (replicate (nat pre) 0 @ xs @ replicate (nat post) 0))
      | Arr2 c rows \<Rightarrow>
          (let c' = nat pre + c + nat post
           in Inr (Arr2 c' (replicate (nat pre) (replicate c' 0)
                     @ map (\<lambda>r. replicate (nat pre) 0 @ r @ replicate (nat post) 0) rows
                     @ replicate (nat post) (replicate c' 0)))))"

text \<open>A loop over a list that stops at the first exception.\<close>

fun efold :: "('s \<Rightarrow> 'a \<Rightarrow> error + 's) \<Rightarrow> 'a list \<Rightarrow> 's \<Rightarrow> error + 's" where
  "efold f [] s = Inr s"
| "efold f (x # xs) s = ebind (f s x) (efold f xs)"

text \<open>
  The first part of \<^verbatim>\<open>Renderer.render\<close>: the target is read and padded, the interferer
  is read from the offset (in samples) for the padded target's length and ramped.
\<close>

definition load_scene ::
  "renderer \<Rightarrow> (string \<rightharpoonup> wav) \<Rightarrow> string \<Rightarrow> string \<Rightarrow> string \<Rightarrow> int \<Rightarrow> string \<Rightarrow> int \<Rightarrow> int \<Rightarrow>
     error + real ndarray \<times> real ndarray" where
  "load_scene self fs target noise_type interferer offset dataset pre_samples post_samples =
     (let target_fn = input_path self @ ''/'' @ dataset @ ''/targets/'' @ target @ ''.wav'';
          interferer_fn = input_path self @ ''/'' @ dataset @ ''/interferers/'' @ noise_type
                            @ ''/'' @ interferer @ ''.wav''
      in ebind (read_signal self fs target_fn 0 (- 1) 0 False) (\<lambda>target.
         ebind (np_pad target pre_samples post_samples) (\<lambda>target.
         ebind (read_signal self fs interferer_fn offset (int (len target)) 0 True)
           (\<lambda>interferer_signal.
         ebind (apply_ramp self interferer_signal (ramp_duration self)) (\<lambda>interferer_signal.
         Inr (target, interferer_signal))))))"

text \<open>
  The start of the loop body: the channel's two BRIRs are read and applied. The result is
  the target BRIR, \<^verbatim>\<open>target_at_ear\<close> and the interferer at the ear before any scaling.
\<close>

definition channel_at_ear ::
  "renderer \<Rightarrow> (string \<rightharpoonup> wav) \<Rightarrow> string \<Rightarrow> real ndarray \<Rightarrow> real ndarray \<Rightarrow> int \<Rightarrow>
     error + real ndarray \<times> real ndarray \<times> real ndarray" where
  "channel_at_ear self fs brir_stem target interferer_signal channel =
     ebind (read_signal self fs (brir_stem @ ''_t_CH'' @ str_int channel @ ''.wav'') 0 (- 1) 0 False)
       (\<lambda>target_brir.
     ebind (read_signal self fs (brir_stem @ ''_i1_CH'' @ str_int channel @ ''.wav'') 0 (- 1) 0 False)
       (\<lambda>interferer_brir.
     ebind (snd (apply_brir self target target_brir)) (\<lambda>target_at_ear.
     ebind (snd (apply_brir self interferer_signal interferer_brir)) (\<lambda>interferer_at_ear.
     Inr (target_brir, target_at_ear, interferer_at_ear)))))"

text \<open>
  The variables that live across iterations: \<^verbatim>\<open>snr_ref\<close>, \<^verbatim>\<open>outputs\<close>, the
  \<^verbatim>\<open>target_brir\<close> last read, and the channels named by the debug message
  \<^verbatim>\<open>"Using channel %s as reference."\<close>, which is logged right after each call of
  \<^verbatim>\<open>compute_snr\<close>.
\<close>

record loop_state =
  st_snr_ref :: "real option"
  st_outputs :: "(string \<times> real ndarray) list"
  st_target_brir :: "real ndarray option"
  st_reference_log :: "int list"

definition channel_body ::
  "renderer \<Rightarrow> utils \<Rightarrow> (string \<rightharpoonup> wav) \<Rightarrow> string \<Rightarrow> string \<Rightarrow> real ndarray \<Rightarrow> real ndarray \<Rightarrow>
     int \<Rightarrow> int \<Rightarrow> int \<Rightarrow> loop_state \<Rightarrow> int \<Rightarrow> error + loop_state" where
  "channel_body self u fs brir_stem prefix target interferer_signal snr_dB pre_samples post_samples
       st channel =
     ebind (channel_at_ear self fs brir_stem target interferer_signal channel)
       (\<lambda>(target_brir, target_at_ear, interferer_at_ear).
     ebind (case st_snr_ref st of
              None \<Rightarrow> compute_snr self (better_ear_speechweighted_snr u)
                        target_at_ear interferer_at_ear pre_samples post_samples
            | Some g \<Rightarrow> Inr g) (\<lambda>snr_ref.
     (let interferer_at_ear = scale interferer_at_ear snr_ref;
          interferer_at_ear = scale interferer_at_ear (10 powr (real_of_int (- snr_dB) / 20))
      in ebind (sum_signals u [target_at_ear, interferer_at_ear]) (\<lambda>signal_at_ear.
         Inr \<lparr> st_snr_ref = Some snr_ref,
               st_outputs = st_outputs st @
                 [(prefix @ ''_mixed_CH'' @ str_int channel @ ''.wav'', signal_at_ear),
                  (prefix @ ''_target_CH'' @ str_int channel @ ''.wav'', target_at_ear),
                  (prefix @ ''_interferer_CH'' @ str_int channel @ ''.wav'', interferer_at_ear)],
               st_target_brir = Some target_brir,
               st_reference_log =
                 (case st_snr_ref st of None \<Rightarrow> st_reference_log st @ [channel]
                  | Some g \<Rightarrow> st_reference_log st) \<rparr>))))"

text \<open>The final loop: every output is written as floating point at the configured rate.\<close>

fun write_all :: "renderer \<Rightarrow> (string \<times> real ndarray) list \<Rightarrow> error + (string \<times> sf_write) list" where
  "write_all self [] = Inr []"
| "write_all self ((filename, signal) # rest) =
     ebind (snd (write_signal self filename signal (sample_rate self) True)) (\<lambda>w.
       ebind (write_all self rest) (\<lambda>ws. Inr (w # ws)))"

text \<open>
  What a call of \<^verbatim>\<open>render\<close> leaves behind: the files written, in order, and the channels
  logged as reference.
\<close>

record render_result =
  writes :: "(string \<times> sf_write) list"
  reference_log :: "int list"

text \<open>
  \<^verbatim>\<open>Renderer.render\<close>. After the loop \<^verbatim>\<open>target_brir\<close> is the variable assigned by the
  last iteration; with no channel it is read from the \<^verbatim>\<open>CH0\<close> file.
\<close>

definition render ::
  "renderer \<Rightarrow> utils \<Rightarrow> (string \<rightharpoonup> wav) \<Rightarrow> string \<Rightarrow> string \<Rightarrow> string \<Rightarrow> string \<Rightarrow> string \<Rightarrow>
     int \<Rightarrow> int \<Rightarrow> string \<Rightarrow> int \<Rightarrow> int \<Rightarrow> error + render_result" where
  "render self u fs target noise_type interferer room scene offset snr_dB dataset
       pre_samples post_samples =
     (let brir_stem = input_path self @ ''/'' @ dataset @ ''/rooms/brir/brir_'' @ room;
          anechoic_brir_stem = input_path self @ ''/'' @ dataset @ ''/rooms/brir/anech_brir_'' @ room;
          prefix = output_path self @ ''/'' @ scene
      in ebind (load_scene self fs target noise_type interferer offset dataset
                  pre_samples post_samples) (\<lambda>(target, interferer_signal).
         ebind (efold (channel_body self u fs brir_stem prefix target interferer_signal snr_dB
                         pre_samples post_samples) (channels self)
                  \<lparr> st_snr_ref = None,
                    st_outputs = [(prefix @ ''_target.wav'', target),
                                  (prefix @ ''_interferer.wav'', interferer_signal)],
                    st_target_brir = None, st_reference_log = [] \<rparr>) (\<lambda>st.
         ebind (if channels self = []
                then ebind (read_signal self fs (brir_stem @ ''_t_CH0.wav'') 0 (- 1) 0 False)
                       (\<lambda>b. Inr (Some b))
                else Inr (st_target_brir st)) (\<lambda>tb.
         (case tb of
            None \<Rightarrow> Inl UnboundLocalError
          | Some target_brir \<Rightarrow>
              ebind (read_signal self fs (anechoic_brir_stem @ ''_t_CH1.wav'') 0 (- 1) 0 False)
                (\<lambda>anechoic_brir.
              ebind (pad u anechoic_brir (len target_brir)) (\<lambda>anechoic_brir_pad.
              ebind (snd (apply_brir self target anechoic_brir_pad)) (\<lambda>target_anechoic.
              ebind (write_all self
                      (st_outputs st @ [(prefix @ ''_target_anechoic.wav'', target_anechoic)]))
                (\<lambda>ws. Inr \<lparr> writes = ws, reference_log = st_reference_log st \<rparr>)))))))))"

section \<open>The completeness checker\<close>



section \<open>A small configuration for running the model\<close>

text \<open>
  Two samples per second, a ramp of half a second (one sample), a tail of one second (two
  samples), half a second of padding before and after (one sample each), 16-bit output and
  one hearing-aid channel, hence the channels 1 and 0.
\<close>

definition example_renderer :: renderer where
  "example_renderer = Renderer_init ''in'' ''out'' 1 2 (1/2) 1 (1/2) (1/2) 16"

text \<open>
  Modelled from the spec: \<^verbatim>\<open>pad(signal, target_length)\<close> of \<^verbatim>\<open>clarity.data.utils\<close>, which
  is not part of the module, zero-extends the signal to the target length. It stands for the
  parameter \<^const>\<open>pad\<close> where the model is run on the example scene.
\<close>

fun zero_pad :: "real ndarray \<Rightarrow> nat \<Rightarrow> error + real ndarray" where
  "zero_pad (Arr1 xs) n = Inr (Arr1 (xs @ replicate (n - length xs) 0))"
| "zero_pad (Arr2 c rows) n = Inr (Arr2 c (rows @ replicate (n - length rows) (replicate c 0)))"

text \<open>
  Modelled from the spec: \<^verbatim>\<open>sum_signals\<close> of \<^verbatim>\<open>clarity.data.utils\<close>, which is not part
  of the module, is the element-wise sum of signals brought to a common length, here by
  zero-padding the shorter ones. It stands for the parameter \<^const>\<open>sum_signals\<close> on the
  example scene.
\<close>

fun add_rows :: "real list list \<Rightarrow> real list list \<Rightarrow> real list list" where
  "add_rows [] ys = ys"
| "add_rows xs [] = xs"
| "add_rows (x # xs) (y # ys) = map (\<lambda>(a, b). a + b) (zip x y) # add_rows xs ys"

fun add_arrays :: "real ndarray \<Rightarrow> real ndarray \<Rightarrow> error + real ndarray" where
  "add_arrays (Arr1 xs) (Arr1 ys) = Inr (Arr1 (add_padded xs ys))"
| "add_arrays (Arr2 c xs) (Arr2 d ys) =
     (if c = d then Inr (Arr2 c (add_rows xs ys)) else Inl UtilityError)"
| "add_arrays a b = Inl UtilityError"

fun sum_padded :: "real ndarray list \<Rightarrow> error + real ndarray" where
  "sum_padded [] = Inl UtilityError"
| "sum_padded [a] = Inr a"
| "sum_padded (a # as) = ebind (sum_padded as) (add_arrays a)"

text \<open>
  The speech-weighted metric is outside the module and the spec leaves its weighting open;
  on the example scene the sum of all samples of both segments stands for it, a value that
  depends on the pair it is given.
\<close>

definition example_metric :: "real ndarray \<Rightarrow> real ndarray \<Rightarrow> real" where
  "example_metric t n = sum_list (elements t) + sum_list (elements n)"

definition example_utils :: utils where
  "example_utils = \<lparr> better_ear_speechweighted_snr = example_metric, pad = zero_pad,
       sum_signals = sum_padded \<rparr>"

text \<open>
  The stored files of the example scene: a target of two samples, an interferer of five,
  BRIRs of four rows for channel 1 and of two rows for channel 0, and an anechoic BRIR of two
  rows.
\<close>

definition example_fs :: "string \<rightharpoonup> wav" where
  "example_fs = map_of
     [(''in/ds/targets/T.wav'', \<lparr> wav_rate = 2, wav_channels = 1, wav_frames = [[1], [2]] \<rparr>),
      (''in/ds/interferers/noise/N.wav'',
         \<lparr> wav_rate = 2, wav_channels = 1, wav_frames = [[1], [1], [1], [1], [1]] \<rparr>),
      (''in/ds/rooms/brir/brir_R_t_CH1.wav'',
         \<lparr> wav_rate = 2, wav_channels = 2, wav_frames = [[1, 1], [0, 0], [0, 0], [0, 0]] \<rparr>),
      (''in/ds/rooms/brir/brir_R_i1_CH1.wav'',
         \<lparr> wav_rate = 2, wav_channels = 2, wav_frames = [[1, 1], [0, 0], [0, 0], [0, 0]] \<rparr>),
      (''in/ds/rooms/brir/brir_R_t_CH0.wav'',
         \<lparr> wav_rate = 2, wav_channels = 2, wav_frames = [[1, 1], [0, 0]] \<rparr>),
      (''in/ds/rooms/brir/brir_R_i1_CH0.wav'',
         \<lparr> wav_rate = 2, wav_channels = 2, wav_frames = [[2, 2], [0, 0]] \<rparr>),
      (''in/ds/rooms/brir/anech_brir_R_t_CH1.wav'',
         \<lparr> wav_rate = 2, wav_channels = 2, wav_frames = [[1, 1], [0, 0]] \<rparr>)]"

text \<open>What rendering the example scene at 0 dB with one sample of padding leaves behind.\<close>

definition float_file :: "real ndarray \<Rightarrow> sf_write" where
  "float_file a = \<lparr> w_subtype = FLOAT, w_data = Floats a, w_rate = 2 \<rparr>"

definition example_result :: render_result where
  "example_result =
     \<lparr> writes =
         [(''out/S1_target.wav'', float_file (Arr1 [0, 1, 2, 0])),
          (''out/S1_interferer.wav'', float_file (Arr1 [0, 1, 1, 0])),
          (''out/S1_mixed_CH1.wav'',
             float_file (Arr2 2 [[0, 0], [11, 11], [12, 12], [0, 0], [0, 0], [0, 0]])),
          (''out/S1_target_CH1.wav'',
             float_file (Arr2 2 [[0, 0], [1, 1], [2, 2], [0, 0], [0, 0], [0, 0]])),
          (''out/S1_interferer_CH1.wav'',
             float_file (Arr2 2 [[0, 0], [10, 10], [10, 10], [0, 0], [0, 0], [0, 0]])),
          (''out/S1_mixed_CH0.wav'',
             float_file (Arr2 2 [[0, 0], [21, 21], [22, 22], [0, 0], [0, 0]])),
          (''out/S1_target_CH0.wav'',
             float_file (Arr2 2 [[0, 0], [1, 1], [2, 2], [0, 0], [0, 0]])),
          (''out/S1_interferer_CH0.wav'',
             float_file (Arr2 2 [[0, 0], [20, 20], [20, 20], [0, 0], [0, 0]])),
          (''out/S1_target_anechoic.wav'',
             float_file (Arr2 2 [[0, 0], [1, 1], [2, 2], [0, 0], [0, 0]]))],
       reference_log = [1] \<rparr>"

text \<open>
  What rendering the same scene at -20 dB leaves behind: the scaled interferer is ten times
  louder than at 0 dB.
\<close>

definition loud_result :: render_result where
  "loud_result =
     \<lparr> writes =
         [(''out/S1_target.wav'', float_file (Arr1 [0, 1, 2, 0])),
          (''out/S1_interferer.wav'', float_file (Arr1 [0, 1, 1, 0])),
          (''out/S1_mixed_CH1.wav'',
             float_file (Arr2 2 [[0, 0], [101, 101], [102, 102], [0, 0], [0, 0], [0, 0]])),
          (''out/S1_target_CH1.wav'',
             float_file (Arr2 2 [[0, 0], [1, 1], [2, 2], [0, 0], [0, 0], [0, 0]])),
          (''out/S1_interferer_CH1.wav'',
             float_file (Arr2 2 [[0, 0], [100, 100], [100, 100], [0, 0], [0, 0], [0, 0]])),
          (''out/S1_mixed_CH0.wav'',
             float_file (Arr2 2 [[0, 0], [201, 201], [202, 202], [0, 0], [0, 0]])),
          (''out/S1_target_CH0.wav'',
             float_file (Arr2 2 [[0, 0], [1, 1], [2, 2], [0, 0], [0, 0]])),
          (''out/S1_interferer_CH0.wav'',
             float_file (Arr2 2 [[0, 0], [200, 200], [200, 200], [0, 0], [0, 0]])),
          (''out/S1_target_anechoic.wav'',
             float_file (Arr2 2 [[0, 0], [1, 1], [2, 2], [0, 0], [0, 0]]))],
       reference_log = [1] \<rparr>"




lemma example_renderer_fields:
  "n_tail example_renderer = 2" "sample_rate example_renderer = 2"
  "channels example_renderer = [1, 0]" "pre_duration example_renderer = 1/2"
  "post_duration example_renderer = 1/2" "ramp_duration example_renderer = 1/2"
  "test_nbits example_renderer = 16" "input_path example_renderer = ''in''"
  "output_path example_renderer = ''out''"
  by (simp_all add: example_renderer_def Renderer_init_def py_int_def upto.simps)

lemma py_index_le: "py_index L i \<le> L"
  unfolding py_index_def by (cases "i < 0") auto

lemma length_py_slice:
  "length (py_slice lo hi xs) = py_index (length xs) hi - py_index (length xs) lo"
  using py_index_le [of "length xs" hi] by (auto simp add: py_slice_def Let_def)



section \<open>Properties of the BRIR convolver\<close>

lemma convolve_Inr:
  "xs \<noteq> [] \<Longrightarrow> ys \<noteq> [] \<Longrightarrow> convolve xs ys = Inr (linear_convolution xs ys)"
  by (simp add: convolve_def)





text \<open>
  Claim C6, evaluated at a mono signal with a mono BRIR: the call logs the error and then
  raises \<^verbatim>\<open>UnboundLocalError\<close>, because \<^verbatim>\<open>signal_l\<close> was never assigned.
\<close>

theorem apply_brir_bad_shape_raises:
  "apply_brir example_renderer (Arr1 [1, 2]) (Arr1 [1, 1/2])
     = ([''Signal does not have the required shape.''], Inl UnboundLocalError)"
  by (simp add: apply_brir_def)





section \<open>Properties of the reference-SNR estimator\<close>

text \<open>
  Claim C3, evaluated with configured padding of one sample on each side while the caller
  passes \<open>pre_samples = 3\<close> and \<open>post_samples = 2\<close>: whatever the metric, it receives the
  signals trimmed by one sample on each side, not the segments \<open>[4, 5, 6]\<close> and
  \<open>[5, 4, 3]\<close> that the arguments describe.
\<close>

theorem compute_snr_ignores_arguments:
  "compute_snr example_renderer m (Arr1 [1, 2, 3, 4, 5, 6, 7, 8]) (Arr1 [8, 7, 6, 5, 4, 3, 2, 1]) 3 2
     = Inr (m (Arr1 [2, 3, 4, 5, 6, 7]) (Arr1 [7, 6, 5, 4, 3, 2]))
   \<and> slice_rows 3 (- 2) (Arr1 [1, 2, 3, 4, 5, 6, 7, 8 :: real]) = Arr1 [4, 5, 6]
   \<and> slice_rows 3 (- 2) (Arr1 [8, 7, 6, 5, 4, 3, 2, 1 :: real]) = Arr1 [5, 4, 3]"
  by (simp add: compute_snr_def example_renderer_fields py_int_def py_slice_def py_index_def
        Let_def)

text \<open>
  Claim C7. \<^verbatim>\<open>compute_snr\<close> raises exactly when the two segments it has trimmed differ
  in length, and the exception is then the length mismatch carrying both lengths; in
  particular segments of 1000 and 900 samples raise it.
\<close>

theorem compute_snr_length_mismatch:
  "(let pre = py_int (real_of_int (sample_rate self) * pre_duration self);
        post = py_int (real_of_int (sample_rate self) * post_duration self);
        segment_target = slice_rows pre (- post) target;
        segment_noise = slice_rows pre (- post) noise
    in (isl (compute_snr self m target noise p q) \<longleftrightarrow> len segment_target \<noteq> len segment_noise)
     \<and> (len segment_target \<noteq> len segment_noise \<longrightarrow>
          compute_snr self m target noise p q
            = Inl (LengthMismatch (len segment_target) (len segment_noise)))
     \<and> (len segment_target = 1000 \<and> len segment_noise = 900 \<longrightarrow>
          compute_snr self m target noise p q = Inl (LengthMismatch 1000 900)))"
  by (simp add: compute_snr_def Let_def)

theorem compute_snr_length_mismatch_witness:
  "len (slice_rows 1 (- 1) (Arr1 (replicate 1002 (0::real)))) = 1000
   \<and> len (slice_rows 1 (- 1) (Arr1 (replicate 902 (0::real)))) = 900
   \<and> compute_snr example_renderer (\<lambda>t n. 1) (Arr1 (replicate 1002 0)) (Arr1 (replicate 902 0)) 0 (- 1)
       = Inl (LengthMismatch 1000 900)"
proof -
  have l1: "len (slice_rows 1 (- 1) (Arr1 (replicate 1002 (0::real)))) = 1000"
    by (simp add: length_py_slice py_index_def)
  have l2: "len (slice_rows 1 (- 1) (Arr1 (replicate 902 (0::real)))) = 900"
    by (simp add: length_py_slice py_index_def)
  have p: "py_int (real_of_int (sample_rate example_renderer) * pre_duration example_renderer) = 1"
    "py_int (real_of_int (sample_rate example_renderer) * post_duration example_renderer) = 1"
    by (simp_all add: example_renderer_fields py_int_def)
  show ?thesis
    using compute_snr_length_mismatch [where self = example_renderer and m = "\<lambda>t n. 1"
      and target = "Arr1 (replicate 1002 0)" and noise = "Arr1 (replicate 902 0)"
      and p = 0 and q = "- 1"] l1 l2
    unfolding Let_def p by simp
qed

text \<open>
  The lengths compared are those after trimming. With the default configuration (44100
  samples per second, two seconds before and one second after) input signals of 1000 and of
  900 samples are both trimmed to nothing, and the call returns the metric of two empty
  segments.
\<close>

lemma py_slice_beyond: "0 \<le> lo \<Longrightarrow> int (length xs) \<le> lo \<Longrightarrow> py_slice lo hi xs = []"
  by (simp add: py_slice_def py_index_def Let_def)

lemma compute_snr_short_inputs:
  "compute_snr (Renderer_init inp outp N 44100 rd td 2 1 nb) m
      (Arr1 (replicate 1000 0)) (Arr1 (replicate 900 0)) p q = Inr (m (Arr1 []) (Arr1 []))"
proof -
  have pre: "py_int (real_of_int (sample_rate (Renderer_init inp outp N 44100 rd td 2 1 nb))
               * pre_duration (Renderer_init inp outp N 44100 rd td 2 1 nb)) = 88200"
    by (simp add: Renderer_init_def py_int_def)
  have t: "py_slice 88200 hi (replicate 1000 (0::real)) = []" for hi
    by (rule py_slice_beyond) simp_all
  have n: "py_slice 88200 hi (replicate 900 (0::real)) = []" for hi
    by (rule py_slice_beyond) simp_all
  show ?thesis
    unfolding compute_snr_def Let_def pre slice_rows.simps t n by simp
qed

section \<open>Properties of the signal writer\<close>

lemma fold_max_le: "(\<forall>x\<in>set xs. x \<le> (b::int)) \<Longrightarrow> a \<le> b \<Longrightarrow> fold max xs a \<le> b"
  by (induction xs arbitrary: a) auto

lemma fold_min_ge: "(\<forall>x\<in>set xs. (b::int) \<le> x) \<Longrightarrow> b \<le> a \<Longrightarrow> b \<le> fold min xs a"
  by (induction xs arbitrary: a) auto

lemma sint16: "sint (w :: 16 word) \<le> 32767 \<and> - 32768 \<le> sint w"
  using sint_lt [of w] sint_ge [of w] by simp

lemma np_max_sint16:
  "np_max (map sint (ws :: 16 word list)) = Inl ValueError
   \<or> (\<exists>hi. np_max (map sint ws) = Inr hi \<and> hi \<le> 32767)"
proof (cases ws)
  case Nil
  then show ?thesis by (simp add: np_max_def)
next
  case (Cons w ws')
  have "fold max (map sint ws') (sint w) \<le> 32767"
    by (rule fold_max_le) (auto simp: sint16)
  with Cons show ?thesis by (simp add: np_max_def)
qed

lemma np_min_sint16:
  "np_min (map sint (ws :: 16 word list)) = Inl ValueError
   \<or> (\<exists>lo. np_min (map sint ws) = Inr lo \<and> - 32768 \<le> lo)"
proof (cases ws)
  case Nil
  then show ?thesis by (simp add: np_min_def)
next
  case (Cons w ws')
  have "- 32768 \<le> fold min (map sint ws') (sint w)"
    by (rule fold_min_ge) (auto simp: sint16)
  with Cons show ?thesis by (simp add: np_min_def)
qed

text \<open>
  The assertion of \<^verbatim>\<open>write_signal\<close> is evaluated on the array already converted to
  16 bits, so it holds whatever the signal was.
\<close>

lemma write_signal_never_asserts:
  "snd (write_signal self fn signal rate False) \<noteq> Inl AssertionError"
proof (cases "test_nbits self = 16")
  case True
  define ws where "ws = elements (map_array (\<lambda>x. astype_int16 (x * 32768)) signal)"
  from np_max_sint16 [of ws] np_min_sint16 [of ws] True show ?thesis
    unfolding write_signal_def Let_def ws_def [symmetric]
    by (auto simp add: ebind_def)
next
  case False
  then show ?thesis by (simp add: write_signal_def)
qed

text \<open>
  Claim C8, evaluated at the one-sample signal \<open>[1.0]\<close> with fixed-point output of 16
  bits: the scaled sample 32768 lies above 32767, and the call writes the wrapped value
  \<open>-32768\<close> as PCM_16 instead of failing.
\<close>

theorem write_signal_clipping_unchecked:
  "write_signal example_renderer ''x.wav'' (Arr1 [1]) 2 False
    = ([], Inr (''x.wav'', \<lparr> w_subtype = PCM_16, w_data = Int16s (Arr1 [- 32768]), w_rate = 2 \<rparr>))
   \<and> \<not> ((1::real) * 32768 \<le> 32767)"
  by (simp add: write_signal_def example_renderer_fields Let_def astype_int16_def py_int_def
        ebind_def np_max_def np_min_def)

section \<open>Properties of the ramp shaper\<close>

lemma ramp_window_props:
  assumes "0 \<le> py_int (real_of_int (sample_rate self) * d)"
  shows "\<exists>r. ramp_window self d = Inr r
            \<and> length r = nat (py_int (real_of_int (sample_rate self) * d))
            \<and> (r \<noteq> [] \<longrightarrow> r ! 0 = 0)"
  using assms by (simp add: ramp_window_def Let_def linspace_def)

text \<open>
  Claim C9, as amended. For a mono signal and a ramp of \<open>k = int(sample_rate * D)\<close>
  samples with \<open>1 \<le> k \<le> len(S)\<close>, \<^verbatim>\<open>apply_ramp\<close> returns a signal of the same
  length; every sample at an index from \<open>k\<close> up to \<open>len(S) - k\<close> (excluded), that is
  strictly between the two windows, is unchanged, and the first and the last sample are
  multiplied by the window value \<open>(cos \<pi> + 1) / 2 = 0\<close>, hence zero.
\<close>

theorem apply_ramp_frame:
  assumes k1: "1 \<le> py_int (real_of_int (sample_rate self) * d)"
      and kL: "py_int (real_of_int (sample_rate self) * d) \<le> int (length xs)"
  shows "\<exists>ys. apply_ramp self (Arr1 xs) d = Inr (Arr1 ys)
           \<and> length ys = length xs
           \<and> (\<forall>i. nat (py_int (real_of_int (sample_rate self) * d)) \<le> i
                  \<and> i < length xs - nat (py_int (real_of_int (sample_rate self) * d))
                \<longrightarrow> ys ! i = xs ! i)
           \<and> ys ! 0 = 0 \<and> ys ! (length xs - 1) = 0"
proof -
  define k where "k = nat (py_int (real_of_int (sample_rate self) * d))"
  define L where "L = length xs"
  from k1 kL have k: "1 \<le> k" "k \<le> L" by (simp_all add: k_def L_def)
  from k1 obtain r where r: "ramp_window self d = Inr r" "length r = k" "r ! 0 = 0"
    using ramp_window_props [of self d] by (auto simp: k_def)
  define v where "v = map (\<lambda>(x, y). x * y) (zip (take k xs) r)"
  define s1 where "s1 = v @ drop k xs"
  have lv: "length v = k" using k r by (simp add: v_def L_def)
  have ls1: "length s1 = L" using k lv by (simp add: s1_def L_def)
  have step1: "imul_slice 0 (int (length r)) (Arr1 xs) r = Inr (Arr1 s1)"
    using k r lv by (simp add: py_index_def bcast_mul_list_def ebind_def Let_def L_def
        v_def [symmetric] s1_def)
  define w where "w = map (\<lambda>(x, y). x * y) (zip (drop (L - k) s1) (rev r))"
  define ys where "ys = take (L - k) s1 @ w"
  have lw: "length w = k" using k r ls1 by (simp add: w_def)
  have ia: "py_index L (- int k) = L - k" using k by (simp add: py_index_def)
  have ib: "py_index L (int L) = L" by (simp add: py_index_def)
  have step2: "imul_slice (- int (length r)) (int (len (Arr1 s1))) (Arr1 s1) (rev r) = Inr (Arr1 ys)"
    using k r ls1 lw
    by (simp add: ia ib bcast_mul_list_def ebind_def Let_def w_def [symmetric] ys_def)
  have res: "apply_ramp self (Arr1 xs) d = Inr (Arr1 ys)"
    unfolding apply_ramp_def by (simp only: r(1) ebind_def sum.case step1 step2)
  have lys: "length ys = L" using k ls1 lw by (simp add: ys_def)
  have v0: "v ! 0 = 0" using k r lv by (simp add: v_def L_def)
  have s10: "s1 ! 0 = 0" using k lv v0 by (simp add: s1_def nth_append)
  have mid: "ys ! i = xs ! i" if "k \<le> i" "i < L - k" for i
  proof -
    have "ys ! i = s1 ! i" using that ls1 by (simp add: ys_def nth_append)
    also have "\<dots> = xs ! i" using that lv k by (simp add: s1_def nth_append L_def)
    finally show ?thesis .
  qed
  have wlast: "w ! (k - 1) = 0"
    using k r ls1 lw by (simp add: w_def rev_nth)
  have idx: "\<not> (L - 1 < L - k)" "L - 1 - (L - k) = k - 1" using k by arith+
  have last: "ys ! (L - 1) = 0"
    using ls1 wlast idx by (simp add: ys_def nth_append)
  have first: "ys ! 0 = 0"
  proof (cases "L = k")
    case True
    then have "ys = w" by (simp add: ys_def)
    moreover have "w ! 0 = 0" using True k r ls1 s10 by (simp add: w_def)
    ultimately show ?thesis by simp
  next
    case False
    with k have "0 < L - k" by simp
    then show ?thesis using ls1 s10 by (simp add: ys_def nth_append)
  qed
  show ?thesis
    using res lys mid first last unfolding k_def [symmetric] L_def [symmetric] by blast
qed


theorem apply_ramp_frame_witness:
  "\<exists>ys. apply_ramp example_renderer (Arr1 [5, 6, 7, 8, 9]) 1 = Inr (Arr1 ys)
       \<and> length ys = 5 \<and> ys ! 2 = 7 \<and> ys ! 0 = 0 \<and> ys ! 4 = 0"
proof -
  have k: "py_int (real_of_int (sample_rate example_renderer) * 1) = 2"
    by (simp add: example_renderer_fields py_int_def)
  have h1: "1 \<le> py_int (real_of_int (sample_rate example_renderer) * 1)"
    and h2: "py_int (real_of_int (sample_rate example_renderer) * 1) \<le> int (length [5, 6, 7, 8, 9::real])"
    unfolding k by simp_all
  from apply_ramp_frame [OF h1 h2] obtain ys where
    ys: "apply_ramp example_renderer (Arr1 [5, 6, 7, 8, 9]) 1 = Inr (Arr1 ys)"
      "length ys = length [5, 6, 7, 8, 9::real]"
      "\<forall>i. nat (py_int (real_of_int (sample_rate example_renderer) * 1)) \<le> i
                  \<and> i < length [5, 6, 7, 8, 9::real] - nat (py_int (real_of_int (sample_rate example_renderer) * 1))
                \<longrightarrow> ys ! i = [5, 6, 7, 8, 9] ! i"
      "ys ! 0 = 0" "ys ! (length [5, 6, 7, 8, 9::real] - 1) = 0"
    by blast
  from ys(3) have "ys ! 2 = 7" unfolding k by simp
  with ys(1,2,4,5) show ?thesis by (simp add: eval_nat_numeral)
qed

text \<open>
  Claim C9 as stated fails: a signal shorter than the window, and a window of no sample on a
  non-empty signal, make the in-place product raise numpy's broadcast error.
\<close>

theorem apply_ramp_frame_counterexample:
  "apply_ramp example_renderer (Arr1 [1, 2]) 2 = Inl BroadcastError
   \<and> apply_ramp example_renderer (Arr1 [1, 2]) 0 = Inl BroadcastError"
  by (simp add: apply_ramp_def ramp_window_def linspace_def example_renderer_fields py_int_def
        Let_def ebind_def py_index_def bcast_mul_list_def)

section \<open>File names\<close>

text \<open>The text of an integer determines the integer.\<close>

lemma str_digit_inj: "a < 10 \<Longrightarrow> b < 10 \<Longrightarrow> str_digit a = str_digit b \<Longrightarrow> a = b"
proof -
  have d: "distinct ''0123456789''" by simp
  assume "a < 10" "b < 10" "str_digit a = str_digit b"
  then show ?thesis
    using nth_eq_iff_index_eq [OF d, of a b] by (simp add: str_digit_def)
qed

lemma str_digit_not_minus: "d < 10 \<Longrightarrow> str_digit d \<noteq> CHR ''-''"
proof -
  have m: "CHR ''-'' \<notin> set ''0123456789''" by simp
  assume "d < 10"
  then have "str_digit d \<in> set ''0123456789''"
    unfolding str_digit_def by (intro nth_mem) simp
  with m show ?thesis by metis
qed

lemma str_nat_nonempty: "str_nat n \<noteq> []"
  by (subst str_nat.simps) simp

lemma minus_notin_str_nat: "CHR ''-'' \<notin> set (str_nat n)"
proof (induction n rule: str_nat.induct)
  case (1 n)
  show ?case
  proof (cases "n < 10")
    case True
    then show ?thesis using str_digit_not_minus [of n] by (subst str_nat.simps) simp
  next
    case False
    then show ?thesis using 1 str_digit_not_minus [of "n mod 10"]
      by (subst str_nat.simps) simp
  qed
qed

lemma str_nat_inj: "str_nat m = str_nat n \<Longrightarrow> m = n"
proof (induction m arbitrary: n rule: str_nat.induct)
  case (1 m)
  show ?case
  proof (cases "m < 10")
    case m: True
    show ?thesis
    proof (cases "n < 10")
      case True
      with m "1.prems" show ?thesis
        using str_digit_inj [of m n] by (simp add: str_nat.simps [of m] str_nat.simps [of n])
    next
      case False
      with m "1.prems" str_nat_nonempty [of "n div 10"] show ?thesis
        by (simp add: str_nat.simps [of m] str_nat.simps [of n] Cons_eq_append_conv)
    qed
  next
    case m: False
    show ?thesis
    proof (cases "n < 10")
      case True
      with m "1.prems" str_nat_nonempty [of "m div 10"] show ?thesis
        by (simp add: str_nat.simps [of m] str_nat.simps [of n] append_eq_Cons_conv)
    next
      case False
      with m "1.prems" have a: "str_nat (m div 10) = str_nat (n div 10)"
        and b: "str_digit (m mod 10) = str_digit (n mod 10)"
        by (simp_all add: str_nat.simps [of m] str_nat.simps [of n])
      from "1.IH" [OF m a] have "m div 10 = n div 10" .
      moreover from b have "m mod 10 = n mod 10" using str_digit_inj by simp
      ultimately show ?thesis by (metis div_mult_mod_eq)
    qed
  qed
qed

lemma str_int_inj: "str_int i = str_int j \<Longrightarrow> i = j"
proof -
  assume e: "str_int i = str_int j"
  have hd_nat: "\<And>n. hd (str_nat n) \<noteq> CHR ''-''"
    using minus_notin_str_nat str_nat_nonempty by (metis hd_in_set)
  show ?thesis
  proof (cases "i < 0")
    case i: True
    show ?thesis
    proof (cases "j < 0")
      case True
      with i e have "nat (- i) = nat (- j)" by (simp add: str_int_def str_nat_inj)
      with i True show ?thesis by simp
    next
      case False
      with i e have "CHR ''-'' # str_nat (nat (- i)) = str_nat (nat j)"
        by (simp add: str_int_def)
      then have "hd (str_nat (nat j)) = CHR ''-''" by (metis list.sel(1))
      with hd_nat [of "nat j"] show ?thesis by simp
    qed
  next
    case i: False
    show ?thesis
    proof (cases "j < 0")
      case True
      with i e have "CHR ''-'' # str_nat (nat (- j)) = str_nat (nat i)"
        by (simp add: str_int_def)
      then have "hd (str_nat (nat i)) = CHR ''-''" by (metis list.sel(1))
      with hd_nat [of "nat i"] show ?thesis by simp
    next
      case False
      with i e have "nat i = nat j" by (simp add: str_int_def str_nat_inj)
      with i False show ?thesis by simp
    qed
  qed
qed

section \<open>The channel loop\<close>

lemma ebind_Inr_iff: "ebind m f = Inr y \<longleftrightarrow> (\<exists>x. m = Inr x \<and> f x = Inr y)"
  by (cases m) (simp_all add: ebind_def)

lemma write_all_float:
  "write_all self outs =
     Inr (map (\<lambda>(fn, sg). (fn, \<lparr> w_subtype = FLOAT, w_data = Floats sg, w_rate = sample_rate self \<rparr>)) outs)"
  by (induction outs) (auto simp add: write_signal_def ebind_def)

lemma channel_body_Inr:
  assumes "channel_body self u fs bs pf tgt isig snr pre post st ch = Inr st'"
  shows "\<exists>tb ta ia g mix.
      channel_at_ear self fs bs tgt isig ch = Inr (tb, ta, ia)
    \<and> (case st_snr_ref st of
          None \<Rightarrow> compute_snr self (better_ear_speechweighted_snr u) ta ia pre post
        | Some g0 \<Rightarrow> Inr g0) = Inr g
    \<and> st_snr_ref st' = Some g
    \<and> st_outputs st' = st_outputs st @
         [(pf @ ''_mixed_CH'' @ str_int ch @ ''.wav'', mix),
          (pf @ ''_target_CH'' @ str_int ch @ ''.wav'', ta),
          (pf @ ''_interferer_CH'' @ str_int ch @ ''.wav'',
             scale (scale ia g) (10 powr (real_of_int (- snr) / 20)))]
    \<and> st_target_brir st' = Some tb
    \<and> st_reference_log st' =
         (case st_snr_ref st of None \<Rightarrow> st_reference_log st @ [ch] | Some g0 \<Rightarrow> st_reference_log st)"
  using assms
  by (auto simp add: channel_body_def ebind_Inr_iff Let_def)


lemma efold_cached:
  assumes b: "body = channel_body self u fs bs pf tgt isig snr pre post"
      and k: "k = 10 powr (real_of_int (- snr) / 20)"
      and run: "efold body chs st = Inr st'"
      and ref: "st_snr_ref st = Some g"
      and U: "\<forall>n v ch. (n, v) \<in> set (st_outputs st) \<and> n = pf @ ''_interferer_CH'' @ str_int ch @ ''.wav''
               \<longrightarrow> (\<exists>tb ta ia. channel_at_ear self fs bs tgt isig ch = Inr (tb, ta, ia)
                      \<and> v = scale (scale ia g) k)"
  shows "st_snr_ref st' = Some g \<and> st_reference_log st' = st_reference_log st
     \<and> (\<forall>n v ch. (n, v) \<in> set (st_outputs st') \<and> n = pf @ ''_interferer_CH'' @ str_int ch @ ''.wav''
               \<longrightarrow> (\<exists>tb ta ia. channel_at_ear self fs bs tgt isig ch = Inr (tb, ta, ia)
                      \<and> v = scale (scale ia g) k))
     \<and> map fst (st_outputs st') = map fst (st_outputs st) @
          concat (map (\<lambda>ch. [pf @ ''_mixed_CH'' @ str_int ch @ ''.wav'',
                              pf @ ''_target_CH'' @ str_int ch @ ''.wav'',
                              pf @ ''_interferer_CH'' @ str_int ch @ ''.wav'']) chs)
     \<and> (chs \<noteq> [] \<longrightarrow> (\<exists>tb ta ia. channel_at_ear self fs bs tgt isig (last chs) = Inr (tb, ta, ia)
                            \<and> st_target_brir st' = Some tb))
     \<and> (chs = [] \<longrightarrow> st' = st)"
  using run ref U
proof (induction chs arbitrary: st)
  case Nil
  then show ?case by simp
next
  case (Cons c cs)
  from Cons.prems(1) obtain st1 where
    s1: "body st c = Inr st1" and rest: "efold body cs st1 = Inr st'"
    by (auto simp add: ebind_Inr_iff)
  from s1 [unfolded b] Cons.prems(2) obtain tb ta ia mix where
    ear: "channel_at_ear self fs bs tgt isig c = Inr (tb, ta, ia)"
    and r1: "st_snr_ref st1 = Some g"
    and o1: "st_outputs st1 = st_outputs st @
         [(pf @ ''_mixed_CH'' @ str_int c @ ''.wav'', mix),
          (pf @ ''_target_CH'' @ str_int c @ ''.wav'', ta),
          (pf @ ''_interferer_CH'' @ str_int c @ ''.wav'', scale (scale ia g) k)]"
    and t1: "st_target_brir st1 = Some tb"
    and l1: "st_reference_log st1 = st_reference_log st"
    using channel_body_Inr [of self u fs bs pf tgt isig snr pre post st c st1]
    by (auto simp add: k)
  have U1: "\<forall>n v ch. (n, v) \<in> set (st_outputs st1) \<and> n = pf @ ''_interferer_CH'' @ str_int ch @ ''.wav''
               \<longrightarrow> (\<exists>tb ta ia. channel_at_ear self fs bs tgt isig ch = Inr (tb, ta, ia)
                      \<and> v = scale (scale ia g) k)"
  proof (intro allI impI, elim conjE)
    fix n v ch
    assume m: "(n, v) \<in> set (st_outputs st1)"
      and n: "n = pf @ ''_interferer_CH'' @ str_int ch @ ''.wav''"
    from m o1 consider
        (old) "(n, v) \<in> set (st_outputs st)"
      | (mix) "n = pf @ ''_mixed_CH'' @ str_int c @ ''.wav''"
      | (tgt) "n = pf @ ''_target_CH'' @ str_int c @ ''.wav''"
      | (int) "n = pf @ ''_interferer_CH'' @ str_int c @ ''.wav''" "v = scale (scale ia g) k"
      by auto
    then show "\<exists>tb ta ia. channel_at_ear self fs bs tgt isig ch = Inr (tb, ta, ia)
                      \<and> v = scale (scale ia g) k"
    proof cases
      case old
      with Cons.prems(3) n show ?thesis by blast
    next
      case mix
      with n show ?thesis by simp
    next
      case tgt
      with n show ?thesis by simp
    next
      case int
      with n have "ch = c" by (auto dest: str_int_inj)
      with ear int show ?thesis by simp
    qed
  qed
  note IH = Cons.IH [OF rest r1 U1]
  show ?case
  proof (cases "cs = []")
    case True
    with IH have "st' = st1" by simp
    with True IH ear t1 l1 o1 show ?thesis by simp
  next
    case False
    with IH l1 o1 show ?thesis by simp
  qed
qed

lemma render_Inr:
  assumes "render self u fs target noise_type interferer room scene offset snr dataset pre post = Inr res"
      and "bs = input_path self @ ''/'' @ dataset @ ''/rooms/brir/brir_'' @ room"
      and "as = input_path self @ ''/'' @ dataset @ ''/rooms/brir/anech_brir_'' @ room"
      and "pf = output_path self @ ''/'' @ scene"
  shows "\<exists>tgt isig st tb ab abp ta.
     load_scene self fs target noise_type interferer offset dataset pre post = Inr (tgt, isig)
   \<and> efold (channel_body self u fs bs pf tgt isig snr pre post) (channels self)
        \<lparr> st_snr_ref = None,
          st_outputs = [(pf @ ''_target.wav'', tgt), (pf @ ''_interferer.wav'', isig)],
          st_target_brir = None, st_reference_log = [] \<rparr> = Inr st
   \<and> (if channels self = [] then read_signal self fs (bs @ ''_t_CH0.wav'') 0 (- 1) 0 False = Inr tb
       else st_target_brir st = Some tb)
   \<and> read_signal self fs (as @ ''_t_CH1.wav'') 0 (- 1) 0 False = Inr ab
   \<and> pad u ab (len tb) = Inr abp
   \<and> snd (apply_brir self tgt abp) = Inr ta
   \<and> writes res = map (\<lambda>(fn, sg). (fn, \<lparr> w_subtype = FLOAT, w_data = Floats sg, w_rate = sample_rate self \<rparr>))
                     (st_outputs st @ [(pf @ ''_target_anechoic.wav'', ta)])
   \<and> reference_log res = st_reference_log st"
  using assms(1) unfolding render_def Let_def assms(2-4) [symmetric]
  by (auto simp add: ebind_Inr_iff write_all_float split: option.splits if_splits)


lemma efold_initial:
  assumes b: "body = channel_body self u fs bs pf tgt isig snr pre post"
      and k: "k = 10 powr (real_of_int (- snr) / 20)"
      and run: "efold body chs st0 = Inr st"
      and r0: "st_snr_ref st0 = None"
      and o0: "st_outputs st0 = [(pf @ ''_target.wav'', tgt), (pf @ ''_interferer.wav'', isig)]"
      and l0: "st_reference_log st0 = []"
  shows "map fst (st_outputs st) = [pf @ ''_target.wav'', pf @ ''_interferer.wav''] @
          concat (map (\<lambda>ch. [pf @ ''_mixed_CH'' @ str_int ch @ ''.wav'',
                              pf @ ''_target_CH'' @ str_int ch @ ''.wav'',
                              pf @ ''_interferer_CH'' @ str_int ch @ ''.wav'']) chs)
     \<and> (chs \<noteq> [] \<longrightarrow> (\<exists>tb ta ia. channel_at_ear self fs bs tgt isig (last chs) = Inr (tb, ta, ia)
                            \<and> st_target_brir st = Some tb))
     \<and> (\<forall>c cs. chs = c # cs \<longrightarrow>
          (\<exists>tb ta ia g. channel_at_ear self fs bs tgt isig c = Inr (tb, ta, ia)
              \<and> compute_snr self (better_ear_speechweighted_snr u) ta ia pre post = Inr g
              \<and> st_reference_log st = [c]
              \<and> (\<forall>n v ch. (n, v) \<in> set (st_outputs st)
                      \<and> n = pf @ ''_interferer_CH'' @ str_int ch @ ''.wav''
                   \<longrightarrow> (\<exists>tb ta ia. channel_at_ear self fs bs tgt isig ch = Inr (tb, ta, ia)
                          \<and> v = scale (scale ia g) k))))"
proof (cases chs)
  case Nil
  with run o0 show ?thesis by simp
next
  case (Cons c cs)
  from run Cons obtain st1 where
    s1: "body st0 c = Inr st1" and rest: "efold body cs st1 = Inr st"
    by (auto simp add: ebind_Inr_iff)
  from s1 [unfolded b] r0 obtain tb ta ia g mix where
    ear: "channel_at_ear self fs bs tgt isig c = Inr (tb, ta, ia)"
    and g: "compute_snr self (better_ear_speechweighted_snr u) ta ia pre post = Inr g"
    and r1: "st_snr_ref st1 = Some g"
    and o1: "st_outputs st1 = st_outputs st0 @
         [(pf @ ''_mixed_CH'' @ str_int c @ ''.wav'', mix),
          (pf @ ''_target_CH'' @ str_int c @ ''.wav'', ta),
          (pf @ ''_interferer_CH'' @ str_int c @ ''.wav'', scale (scale ia g) k)]"
    and t1: "st_target_brir st1 = Some tb"
    and l1: "st_reference_log st1 = st_reference_log st0 @ [c]"
    using channel_body_Inr [of self u fs bs pf tgt isig snr pre post st0 c st1]
    by (auto simp add: k)
  have U1: "\<forall>n v ch. (n, v) \<in> set (st_outputs st1) \<and> n = pf @ ''_interferer_CH'' @ str_int ch @ ''.wav''
               \<longrightarrow> (\<exists>tb ta ia. channel_at_ear self fs bs tgt isig ch = Inr (tb, ta, ia)
                      \<and> v = scale (scale ia g) k)"
  proof (intro allI impI, elim conjE)
    fix n v ch
    assume m: "(n, v) \<in> set (st_outputs st1)"
      and n: "n = pf @ ''_interferer_CH'' @ str_int ch @ ''.wav''"
    define nT where "nT = pf @ ''_target.wav''"
    define nI where "nI = pf @ ''_interferer.wav''"
    define nM where "nM = pf @ ''_mixed_CH'' @ str_int c @ ''.wav''"
    define nTc where "nTc = pf @ ''_target_CH'' @ str_int c @ ''.wav''"
    define nIc where "nIc = pf @ ''_interferer_CH'' @ str_int c @ ''.wav''"
    have o1': "st_outputs st1 = [(nT, tgt), (nI, isig), (nM, mix), (nTc, ta),
                 (nIc, scale (scale ia g) k)]"
      unfolding o1 o0 nT_def nI_def nM_def nTc_def nIc_def by simp
    from m have "(n, v) \<in> set [(nT, tgt), (nI, isig), (nM, mix), (nTc, ta),
                 (nIc, scale (scale ia g) k)]"
      unfolding o1' .
    then consider (t) "n = nT" | (i) "n = nI" | (mix) "n = nM" | (tgt) "n = nTc"
      | (int) "n = nIc" "v = scale (scale ia g) k"
      by auto
    then show "\<exists>tb ta ia. channel_at_ear self fs bs tgt isig ch = Inr (tb, ta, ia)
                      \<and> v = scale (scale ia g) k"
    proof cases
      case t
      with n show ?thesis by (simp add: nT_def)
    next
      case i
      with n show ?thesis by (simp add: nI_def)
    next
      case mix
      with n show ?thesis by (simp add: nM_def)
    next
      case tgt
      with n show ?thesis by (simp add: nTc_def)
    next
      case int
      with n have "ch = c" by (auto simp add: nIc_def dest: str_int_inj)
      with ear int show ?thesis by simp
    qed
  qed
  note C = efold_cached [OF b k rest r1 U1]
  have last: "\<exists>tb ta ia. channel_at_ear self fs bs tgt isig (last chs) = Inr (tb, ta, ia)
                            \<and> st_target_brir st = Some tb"
  proof (cases "cs = []")
    case True
    with C have "st = st1" by simp
    with True Cons ear t1 show ?thesis by simp
  next
    case False
    with C Cons show ?thesis by simp
  qed
  have names: "map fst (st_outputs st) = [pf @ ''_target.wav'', pf @ ''_interferer.wav''] @
          concat (map (\<lambda>ch. [pf @ ''_mixed_CH'' @ str_int ch @ ''.wav'',
                              pf @ ''_target_CH'' @ str_int ch @ ''.wav'',
                              pf @ ''_interferer_CH'' @ str_int ch @ ''.wav'']) chs)"
    using C o1 o0 Cons by simp
  have lg: "st_reference_log st = [c]" using C l1 l0 by simp
  from C have U: "\<forall>n v ch. (n, v) \<in> set (st_outputs st)
                      \<and> n = pf @ ''_interferer_CH'' @ str_int ch @ ''.wav''
                   \<longrightarrow> (\<exists>tb ta ia. channel_at_ear self fs bs tgt isig ch = Inr (tb, ta, ia)
                          \<and> v = scale (scale ia g) k)" by blast
  show ?thesis
  proof (intro conjI allI impI)
    show "map fst (st_outputs st) = [pf @ ''_target.wav'', pf @ ''_interferer.wav''] @
          concat (map (\<lambda>ch. [pf @ ''_mixed_CH'' @ str_int ch @ ''.wav'',
                              pf @ ''_target_CH'' @ str_int ch @ ''.wav'',
                              pf @ ''_interferer_CH'' @ str_int ch @ ''.wav'']) chs)"
      by (rule names)
    show "\<exists>tb ta ia. channel_at_ear self fs bs tgt isig (last chs) = Inr (tb, ta, ia)
                            \<and> st_target_brir st = Some tb" by (rule last)
    fix c' cs' assume "chs = c' # cs'"
    with Cons have "c' = c" by simp
    with ear g lg U show "\<exists>tb ta ia g. channel_at_ear self fs bs tgt isig c' = Inr (tb, ta, ia)
              \<and> compute_snr self (better_ear_speechweighted_snr u) ta ia pre post = Inr g
              \<and> st_reference_log st = [c']
              \<and> (\<forall>n v ch. (n, v) \<in> set (st_outputs st)
                      \<and> n = pf @ ''_interferer_CH'' @ str_int ch @ ''.wav''
                   \<longrightarrow> (\<exists>tb ta ia. channel_at_ear self fs bs tgt isig ch = Inr (tb, ta, ia)
                          \<and> v = scale (scale ia g) k))"
      by blast
  qed
qed

section \<open>The files of a scene\<close>












section \<open>Properties of the scene renderer\<close>

lemma map_of_unique:
  assumes "k \<in> fst ` set xs" and "\<And>v. (k, v) \<in> set xs \<Longrightarrow> v = w"
  shows "map_of xs k = Some w"
proof -
  from assms(1) have "map_of xs k \<noteq> None" by (simp add: map_of_eq_None_iff)
  then obtain v where v: "map_of xs k = Some v" by auto
  then have "(k, v) \<in> set xs" by (rule map_of_SomeD)
  with assms(2) v show ?thesis by simp
qed

lemma str_int_small: "str_int 0 = ''0''" "str_int 1 = ''1''"
  by (simp_all add: str_int_def str_nat.simps [of 0] str_nat.simps [of 1]
        str_nat.simps [of "Suc 0"] str_digit_def)

lemma channel_at_ear_read:
  "channel_at_ear self fs bs tgt isig ch = Inr (tb, ta, ia) \<Longrightarrow>
     read_signal self fs (bs @ ''_t_CH'' @ str_int ch @ ''.wav'') 0 (- 1) 0 False = Inr tb"
  by (auto simp add: channel_at_ear_def ebind_Inr_iff)

text \<open>
  Claim C2, as amended. In a successful \<^verbatim>\<open>render\<close> whose channel sequence is empty or
  ends with channel 0 (every sequence that \<^verbatim>\<open>Renderer.__init__\<close> builds), the anechoic
  BRIR of channel 1 is padded by \<^verbatim>\<open>pad\<close> to the length of the target BRIR of channel 0,
  the padded target is convolved with the result, and that signal is the last file written,
  \<^verbatim>\<open>_target_anechoic.wav\<close>. After the loop \<^verbatim>\<open>target_brir\<close> is the BRIR of the last
  channel processed, which is channel 0, not channel 1.
\<close>

theorem render_anechoic_length:
  assumes run: "render self u fs target noise_type interferer room scene offset snr dataset
                   pre post = Inr res"
      and last0: "channels self = [] \<or> last (channels self) = 0"
  shows "\<exists>tgt isig tb0 ab abp ta.
       load_scene self fs target noise_type interferer offset dataset pre post = Inr (tgt, isig)
     \<and> read_signal self fs
          (input_path self @ ''/'' @ dataset @ ''/rooms/brir/brir_'' @ room @ ''_t_CH0.wav'')
          0 (- 1) 0 False = Inr tb0
     \<and> read_signal self fs
          (input_path self @ ''/'' @ dataset @ ''/rooms/brir/anech_brir_'' @ room @ ''_t_CH1.wav'')
          0 (- 1) 0 False = Inr ab
     \<and> pad u ab (len tb0) = Inr abp
     \<and> snd (apply_brir self tgt abp) = Inr ta
     \<and> last (writes res) = (output_path self @ ''/'' @ scene @ ''_target_anechoic.wav'',
          \<lparr> w_subtype = FLOAT, w_data = Floats ta, w_rate = sample_rate self \<rparr>)"
proof -
  define bs where "bs = input_path self @ ''/'' @ dataset @ ''/rooms/brir/brir_'' @ room"
  define as where "as = input_path self @ ''/'' @ dataset @ ''/rooms/brir/anech_brir_'' @ room"
  define pf where "pf = output_path self @ ''/'' @ scene"
  from render_Inr [OF run bs_def as_def pf_def] obtain tgt isig st tb ab abp ta where
    ld: "load_scene self fs target noise_type interferer offset dataset pre post = Inr (tgt, isig)"
    and loop: "efold (channel_body self u fs bs pf tgt isig snr pre post) (channels self)
            \<lparr> st_snr_ref = None,
              st_outputs = [(pf @ ''_target.wav'', tgt), (pf @ ''_interferer.wav'', isig)],
              st_target_brir = None, st_reference_log = [] \<rparr> = Inr st"
    and tb: "if channels self = [] then read_signal self fs (bs @ ''_t_CH0.wav'') 0 (- 1) 0 False = Inr tb
             else st_target_brir st = Some tb"
    and ab: "read_signal self fs (as @ ''_t_CH1.wav'') 0 (- 1) 0 False = Inr ab"
    and pd: "pad u ab (len tb) = Inr abp"
    and ta: "snd (apply_brir self tgt abp) = Inr ta"
    and w: "writes res = map (\<lambda>(fn, sg). (fn, \<lparr> w_subtype = FLOAT, w_data = Floats sg, w_rate = sample_rate self \<rparr>))
                     (st_outputs st @ [(pf @ ''_target_anechoic.wav'', ta)])"
    by blast
  have rd0: "read_signal self fs (bs @ ''_t_CH0.wav'') 0 (- 1) 0 False = Inr tb"
  proof (cases "channels self = []")
    case True
    with tb show ?thesis by simp
  next
    case False
    with last0 have l: "last (channels self) = 0" by simp
    from efold_initial [OF refl refl loop] False l obtain tb' ta' ia' where
      "channel_at_ear self fs bs tgt isig 0 = Inr (tb', ta', ia')" "st_target_brir st = Some tb'"
      by auto
    with tb False channel_at_ear_read [of self fs bs tgt isig 0 tb' ta' ia'] show ?thesis
      by (simp add: str_int_small)
  qed
  have lw: "last (writes res) = (pf @ ''_target_anechoic.wav'',
          \<lparr> w_subtype = FLOAT, w_data = Floats ta, w_rate = sample_rate self \<rparr>)"
    unfolding w by simp
  from ld rd0 ab pd ta lw show ?thesis
    unfolding bs_def as_def pf_def by (simp only: append_assoc) blast
qed

text \<open>
  The loop keeps the gain of its first iteration: every interferer file is built from the
  value that \<^verbatim>\<open>compute_snr\<close> gave on the first channel.
\<close>

lemma render_gain_cached:
  assumes run: "render self u fs target noise_type interferer room scene offset snr dataset
                   pre post = Inr res"
      and chs: "channels self = c # cs"
  shows "\<exists>tgt isig tb ta ia g.
       load_scene self fs target noise_type interferer offset dataset pre post = Inr (tgt, isig)
     \<and> channel_at_ear self fs (input_path self @ ''/'' @ dataset @ ''/rooms/brir/brir_'' @ room)
          tgt isig c = Inr (tb, ta, ia)
     \<and> compute_snr self (better_ear_speechweighted_snr u) ta ia pre post = Inr g
     \<and> reference_log res = [c]
     \<and> (\<forall>ch\<in>set (channels self). \<exists>tb' ta' ia'.
           channel_at_ear self fs (input_path self @ ''/'' @ dataset @ ''/rooms/brir/brir_'' @ room)
             tgt isig ch = Inr (tb', ta', ia')
         \<and> map_of (writes res)
             (output_path self @ ''/'' @ scene @ ''_interferer_CH'' @ str_int ch @ ''.wav'')
             = Some \<lparr> w_subtype = FLOAT,
                      w_data = Floats (scale (scale ia' g) (10 powr (real_of_int (- snr) / 20))),
                      w_rate = sample_rate self \<rparr>)"
proof -
  define bs where "bs = input_path self @ ''/'' @ dataset @ ''/rooms/brir/brir_'' @ room"
  define as where "as = input_path self @ ''/'' @ dataset @ ''/rooms/brir/anech_brir_'' @ room"
  define pf where "pf = output_path self @ ''/'' @ scene"
  define k where "k = 10 powr (real_of_int (- snr) / 20)"
  define wr where "wr = (\<lambda>sg. \<lparr> w_subtype = FLOAT, w_data = Floats sg, w_rate = sample_rate self \<rparr>)"
  from render_Inr [OF run bs_def as_def pf_def] obtain tgt isig st tan where
    ld: "load_scene self fs target noise_type interferer offset dataset pre post = Inr (tgt, isig)"
    and loop: "efold (channel_body self u fs bs pf tgt isig snr pre post) (channels self)
            \<lparr> st_snr_ref = None,
              st_outputs = [(pf @ ''_target.wav'', tgt), (pf @ ''_interferer.wav'', isig)],
              st_target_brir = None, st_reference_log = [] \<rparr> = Inr st"
    and w: "writes res = map (\<lambda>(fn, sg). (fn, wr sg))
                     (st_outputs st @ [(pf @ ''_target_anechoic.wav'', tan)])"
    and lg: "reference_log res = st_reference_log st"
    unfolding wr_def by blast
  from efold_initial [OF refl k_def loop] chs obtain tb ta ia g where
    names: "map fst (st_outputs st) = [pf @ ''_target.wav'', pf @ ''_interferer.wav''] @
          concat (map (\<lambda>ch. [pf @ ''_mixed_CH'' @ str_int ch @ ''.wav'',
                              pf @ ''_target_CH'' @ str_int ch @ ''.wav'',
                              pf @ ''_interferer_CH'' @ str_int ch @ ''.wav'']) (channels self))"
    and ear: "channel_at_ear self fs bs tgt isig c = Inr (tb, ta, ia)"
    and g: "compute_snr self (better_ear_speechweighted_snr u) ta ia pre post = Inr g"
    and l1: "st_reference_log st = [c]"
    and U: "\<forall>n v ch. (n, v) \<in> set (st_outputs st)
                      \<and> n = pf @ ''_interferer_CH'' @ str_int ch @ ''.wav''
                   \<longrightarrow> (\<exists>tb ta ia. channel_at_ear self fs bs tgt isig ch = Inr (tb, ta, ia)
                          \<and> v = scale (scale ia g) k)"
    by auto
  have each: "\<exists>tb' ta' ia'. channel_at_ear self fs bs tgt isig ch = Inr (tb', ta', ia')
         \<and> map_of (writes res) (pf @ ''_interferer_CH'' @ str_int ch @ ''.wav'')
             = Some (wr (scale (scale ia' g) k))" if ch: "ch \<in> set (channels self)" for ch
  proof -
    define nm where "nm = pf @ ''_interferer_CH'' @ str_int ch @ ''.wav''"
    from ch have "nm \<in> set (map fst (st_outputs st))"
      unfolding names nm_def by auto
    then obtain v where v: "(nm, v) \<in> set (st_outputs st)" by auto
    with U obtain tb' ta' ia' where
      e: "channel_at_ear self fs bs tgt isig ch = Inr (tb', ta', ia')"
      and "v = scale (scale ia' g) k"
      unfolding nm_def by blast
    have inw: "nm \<in> fst ` set (writes res)"
      unfolding w using v by force
    have uniq: "x = wr (scale (scale ia' g) k)" if "(nm, x) \<in> set (writes res)" for x
    proof -
      from that obtain sg where sg: "x = wr sg"
        "(nm, sg) \<in> set (st_outputs st) \<or> nm = pf @ ''_target_anechoic.wav''"
        unfolding w by auto
      have "nm \<noteq> pf @ ''_target_anechoic.wav''" unfolding nm_def by simp
      with sg have "(nm, sg) \<in> set (st_outputs st)" by simp
      with U e have "sg = scale (scale ia' g) k" unfolding nm_def by fastforce
      with sg show ?thesis by simp
    qed
    from map_of_unique [OF inw uniq] e show ?thesis unfolding nm_def by blast
  qed
  from ld ear g lg l1 each show ?thesis
    unfolding bs_def pf_def k_def wr_def by (simp only: append_assoc) blast
qed

lemma load_scene_Inr:
  assumes "load_scene self fs target noise_type interferer offset dataset pre post = Inr (tgt, isig)"
  shows "\<exists>t0 i0.
       read_signal self fs (input_path self @ ''/'' @ dataset @ ''/targets/'' @ target @ ''.wav'')
         0 (- 1) 0 False = Inr t0
     \<and> np_pad t0 pre post = Inr tgt
     \<and> read_signal self fs (input_path self @ ''/'' @ dataset @ ''/interferers/'' @ noise_type
           @ ''/'' @ interferer @ ''.wav'') offset (int (len tgt)) 0 True = Inr i0
     \<and> apply_ramp self i0 (ramp_duration self) = Inr isig"
  using assms unfolding load_scene_def Let_def
  by (auto simp add: ebind_Inr_iff)

lemma channel_at_ear_Inr:
  assumes "channel_at_ear self fs bs tgt isig ch = Inr (tb, ta, ia)"
  shows "\<exists>ib.
       read_signal self fs (bs @ ''_t_CH'' @ str_int ch @ ''.wav'') 0 (- 1) 0 False = Inr tb
     \<and> read_signal self fs (bs @ ''_i1_CH'' @ str_int ch @ ''.wav'') 0 (- 1) 0 False = Inr ib
     \<and> snd (apply_brir self tgt tb) = Inr ta
     \<and> snd (apply_brir self isig ib) = Inr ia"
  using assms unfolding channel_at_ear_def
  by (auto simp add: ebind_Inr_iff)

lemma vstack_T_Inr: "vstack_T l r = Inr a \<Longrightarrow> \<exists>rows. a = Arr2 2 rows"
  by (auto simp add: vstack_T_def split: if_splits)

lemma apply_brir_Inr_Arr2:
  assumes "snd (apply_brir self s b) = Inr a"
  shows "\<exists>rows. a = Arr2 2 rows"
proof -
  have sl: "\<exists>rows. slice_rows lo hi out = Arr2 2 rows"
    if "vstack_T l r = Inr out" for lo hi out and l r :: "real list"
    using vstack_T_Inr [OF that] by auto
  from assms show ?thesis
    unfolding apply_brir_def Let_def
    by (auto simp add: ebind_Inr_iff split: if_splits ndarray.splits dest: sl)
qed

lemma compute_snr_Inr:
  assumes "compute_snr self metric (Arr2 c trows) (Arr2 d irows) pre post = Inr g"
      and "p = py_int (real_of_int (sample_rate self) * pre_duration self)"
      and "q = py_int (real_of_int (sample_rate self) * post_duration self)"
  shows "g = metric (Arr2 c (py_slice p (- q) trows)) (Arr2 d (py_slice p (- q) irows))
     \<and> length (py_slice p (- q) trows) = length (py_slice p (- q) irows)"
  using assms(1) unfolding compute_snr_def Let_def assms(2,3) [symmetric]
  by (auto split: if_splits)

lemma scale_twice:
  "scale (scale (Arr2 c rows) g) k = Arr2 c (map (map (\<lambda>x. x * g * k)) rows)"
  by (simp add: o_def)

text \<open>
  Claim C1. In a successful \<^verbatim>\<open>render\<close> with a non-empty channel sequence \<open>c # cs\<close>, let
  the target be the target file padded by \<open>pre\<close> and \<open>post\<close> zeros and the interferer be the
  ramped excerpt of the interferer file, and let the at-ear pair of a channel be the two
  results of \<^verbatim>\<open>apply_brir\<close> with that channel's BRIR files. Then there is one gain \<open>g\<close>:
  it is the metric \<^verbatim>\<open>better_ear_speechweighted_snr\<close> of the at-ear pair of the first channel
  \<open>c\<close>, each trimmed by \<open>int(sample_rate * pre_duration)\<close> rows at the start and
  \<open>int(sample_rate * post_duration)\<close> rows at the end; the log names \<open>c\<close>, and only
  \<open>c\<close>, as reference, so the gain is computed once; and for every channel each sample of the
  file \<^verbatim>\<open>_interferer_CH{channel}.wav\<close> is the sample of that channel's interferer at the
  ear times \<open>g\<close> times \<open>10 ^ (- snr_dB / 20)\<close>.
\<close>

theorem render_reference_gain:
  assumes run: "render self u fs target noise_type interferer room scene offset snr dataset
                   pre post = Inr res"
      and chs: "channels self = c # cs"
  shows "\<exists>t0 tgt i0 isig tb ib trows irows p q g.
       read_signal self fs (input_path self @ ''/'' @ dataset @ ''/targets/'' @ target @ ''.wav'')
         0 (- 1) 0 False = Inr t0
     \<and> np_pad t0 pre post = Inr tgt
     \<and> read_signal self fs (input_path self @ ''/'' @ dataset @ ''/interferers/'' @ noise_type
           @ ''/'' @ interferer @ ''.wav'') offset (int (len tgt)) 0 True = Inr i0
     \<and> apply_ramp self i0 (ramp_duration self) = Inr isig
     \<and> read_signal self fs (input_path self @ ''/'' @ dataset @ ''/rooms/brir/brir_'' @ room
           @ ''_t_CH'' @ str_int c @ ''.wav'') 0 (- 1) 0 False = Inr tb
     \<and> read_signal self fs (input_path self @ ''/'' @ dataset @ ''/rooms/brir/brir_'' @ room
           @ ''_i1_CH'' @ str_int c @ ''.wav'') 0 (- 1) 0 False = Inr ib
     \<and> snd (apply_brir self tgt tb) = Inr (Arr2 2 trows)
     \<and> snd (apply_brir self isig ib) = Inr (Arr2 2 irows)
     \<and> p = py_int (real_of_int (sample_rate self) * pre_duration self)
     \<and> q = py_int (real_of_int (sample_rate self) * post_duration self)
     \<and> length (py_slice p (- q) trows) = length (py_slice p (- q) irows)
     \<and> g = better_ear_speechweighted_snr u (Arr2 2 (py_slice p (- q) trows))
                                            (Arr2 2 (py_slice p (- q) irows))
     \<and> reference_log res = [c]
     \<and> (\<forall>ch\<in>set (channels self). \<exists>ib' rows'.
           read_signal self fs (input_path self @ ''/'' @ dataset @ ''/rooms/brir/brir_'' @ room
             @ ''_i1_CH'' @ str_int ch @ ''.wav'') 0 (- 1) 0 False = Inr ib'
         \<and> snd (apply_brir self isig ib') = Inr (Arr2 2 rows')
         \<and> map_of (writes res)
             (output_path self @ ''/'' @ scene @ ''_interferer_CH'' @ str_int ch @ ''.wav'')
             = Some \<lparr> w_subtype = FLOAT,
                      w_data = Floats (Arr2 2
                        (map (map (\<lambda>x. x * g * 10 powr (real_of_int (- snr) / 20))) rows')),
                      w_rate = sample_rate self \<rparr>)"
proof -
  define bs where "bs = input_path self @ ''/'' @ dataset @ ''/rooms/brir/brir_'' @ room"
  define nm where "nm = (\<lambda>ch. output_path self @ ''/'' @ scene @ ''_interferer_CH''
                           @ str_int ch @ ''.wav'')"
  define k where "k = 10 powr (real_of_int (- snr) / 20)"
  define p where "p = py_int (real_of_int (sample_rate self) * pre_duration self)"
  define q where "q = py_int (real_of_int (sample_rate self) * post_duration self)"
  from render_gain_cached [OF run chs] obtain tgt isig tb ta ia g where
    ld: "load_scene self fs target noise_type interferer offset dataset pre post = Inr (tgt, isig)"
    and ear: "channel_at_ear self fs bs tgt isig c = Inr (tb, ta, ia)"
    and g: "compute_snr self (better_ear_speechweighted_snr u) ta ia pre post = Inr g"
    and lg: "reference_log res = [c]"
    and all: "\<forall>ch\<in>set (channels self). \<exists>tb' ta' ia'.
           channel_at_ear self fs bs tgt isig ch = Inr (tb', ta', ia')
         \<and> map_of (writes res) (nm ch)
             = Some \<lparr> w_subtype = FLOAT, w_data = Floats (scale (scale ia' g) k),
                      w_rate = sample_rate self \<rparr>"
    unfolding bs_def nm_def k_def by blast
  from load_scene_Inr [OF ld] obtain t0 i0 where
    l: "read_signal self fs (input_path self @ ''/'' @ dataset @ ''/targets/'' @ target @ ''.wav'')
         0 (- 1) 0 False = Inr t0"
       "np_pad t0 pre post = Inr tgt"
       "read_signal self fs (input_path self @ ''/'' @ dataset @ ''/interferers/'' @ noise_type
           @ ''/'' @ interferer @ ''.wav'') offset (int (len tgt)) 0 True = Inr i0"
       "apply_ramp self i0 (ramp_duration self) = Inr isig"
    by blast
  from channel_at_ear_Inr [OF ear] obtain ib where
    e: "read_signal self fs (bs @ ''_t_CH'' @ str_int c @ ''.wav'') 0 (- 1) 0 False = Inr tb"
       "read_signal self fs (bs @ ''_i1_CH'' @ str_int c @ ''.wav'') 0 (- 1) 0 False = Inr ib"
       "snd (apply_brir self tgt tb) = Inr ta"
       "snd (apply_brir self isig ib) = Inr ia"
    by blast
  from apply_brir_Inr_Arr2 [OF e(3)] obtain trows where ta: "ta = Arr2 2 trows" by blast
  from apply_brir_Inr_Arr2 [OF e(4)] obtain irows where ia: "ia = Arr2 2 irows" by blast
  from compute_snr_Inr [OF g [unfolded ta ia] p_def q_def]
  have gm: "g = better_ear_speechweighted_snr u (Arr2 2 (py_slice p (- q) trows))
                                                (Arr2 2 (py_slice p (- q) irows))"
    and leq: "length (py_slice p (- q) trows) = length (py_slice p (- q) irows)"
    by simp_all
  have each: "\<exists>ib' rows'.
           read_signal self fs (bs @ ''_i1_CH'' @ str_int ch @ ''.wav'') 0 (- 1) 0 False = Inr ib'
         \<and> snd (apply_brir self isig ib') = Inr (Arr2 2 rows')
         \<and> map_of (writes res) (nm ch)
             = Some \<lparr> w_subtype = FLOAT,
                      w_data = Floats (Arr2 2 (map (map (\<lambda>x. x * g * k)) rows')),
                      w_rate = sample_rate self \<rparr>"
    if ch: "ch \<in> set (channels self)" for ch
  proof -
    from all ch obtain tb' ta' ia' where
      c: "channel_at_ear self fs bs tgt isig ch = Inr (tb', ta', ia')"
      and m: "map_of (writes res) (nm ch)
             = Some \<lparr> w_subtype = FLOAT, w_data = Floats (scale (scale ia' g) k),
                      w_rate = sample_rate self \<rparr>"
      by blast
    from channel_at_ear_Inr [OF c] obtain ib' where
      r: "read_signal self fs (bs @ ''_i1_CH'' @ str_int ch @ ''.wav'') 0 (- 1) 0 False = Inr ib'"
      and a: "snd (apply_brir self isig ib') = Inr ia'"
      by blast
    from apply_brir_Inr_Arr2 [OF a] obtain rows' where ia': "ia' = Arr2 2 rows'" by blast
    from r a m show ?thesis unfolding ia' scale_twice by blast
  qed
  from l e(1,2) e(3) [unfolded ta] e(4) [unfolded ia] p_def q_def leq gm lg each
  show ?thesis
    unfolding bs_def nm_def k_def by (simp only: append_assoc) blast
qed

section \<open>The example scene, rendered\<close>

lemma example_load:
  "load_scene example_renderer example_fs ''T'' ''noise'' ''N'' 0 ''ds'' 1 1
     = Inr (Arr1 [0, 1, 2, 0], Arr1 [0, 1, 1, 0])"
  by (simp add: load_scene_def read_signal_def example_fs_def example_renderer_fields
        ebind_def Let_def frames_array_def np_pad_def apply_ramp_def ramp_window_def
        linspace_def py_int_def py_index_def bcast_mul_list_def)

lemma example_ch1:
  "channel_at_ear example_renderer example_fs ''in/ds/rooms/brir/brir_R'' (Arr1 [0, 1, 2, 0])
        (Arr1 [0, 1, 1, 0]) 1
     = Inr (Arr2 2 [[1, 1], [0, 0], [0, 0], [0, 0]],
            Arr2 2 [[0, 0], [1, 1], [2, 2], [0, 0], [0, 0], [0, 0]],
            Arr2 2 [[0, 0], [1, 1], [1, 1], [0, 0], [0, 0], [0, 0]])"
  by (simp add: channel_at_ear_def str_int_small read_signal_def example_fs_def
        example_renderer_fields ebind_def Let_def frames_array_def apply_brir_def
        vstack_T_def py_slice_def py_index_def convolve_def)

lemma example_ch0:
  "channel_at_ear example_renderer example_fs ''in/ds/rooms/brir/brir_R'' (Arr1 [0, 1, 2, 0])
        (Arr1 [0, 1, 1, 0]) 0
     = Inr (Arr2 2 [[1, 1], [0, 0]],
            Arr2 2 [[0, 0], [1, 1], [2, 2], [0, 0], [0, 0]],
            Arr2 2 [[0, 0], [2, 2], [2, 2], [0, 0], [0, 0]])"
  by (simp add: channel_at_ear_def str_int_small read_signal_def example_fs_def
        example_renderer_fields ebind_def Let_def frames_array_def apply_brir_def
        vstack_T_def py_slice_def py_index_def convolve_def)

lemma example_snr:
  "compute_snr example_renderer example_metric
      (Arr2 2 [[0, 0], [1, 1], [2, 2], [0, 0], [0, 0], [0, 0]])
      (Arr2 2 [[0, 0], [1, 1], [1, 1], [0, 0], [0, 0], [0, 0]]) 1 1 = Inr 10"
  by (simp add: compute_snr_def example_renderer_fields py_int_def py_slice_def py_index_def
        Let_def example_metric_def)

lemma example_loop:
  "efold (channel_body example_renderer example_utils example_fs ''in/ds/rooms/brir/brir_R''
            ''out/S1'' (Arr1 [0, 1, 2, 0]) (Arr1 [0, 1, 1, 0]) 0 1 1) [1, 0]
      \<lparr> st_snr_ref = None,
        st_outputs = [(''out/S1_target.wav'', Arr1 [0, 1, 2, 0]),
                      (''out/S1_interferer.wav'', Arr1 [0, 1, 1, 0])],
        st_target_brir = None, st_reference_log = [] \<rparr>
   = Inr \<lparr> st_snr_ref = Some 10,
        st_outputs = [(''out/S1_target.wav'', Arr1 [0, 1, 2, 0]),
                      (''out/S1_interferer.wav'', Arr1 [0, 1, 1, 0]),
          (''out/S1_mixed_CH1.wav'', Arr2 2 [[0, 0], [11, 11], [12, 12], [0, 0], [0, 0], [0, 0]]),
          (''out/S1_target_CH1.wav'', Arr2 2 [[0, 0], [1, 1], [2, 2], [0, 0], [0, 0], [0, 0]]),
          (''out/S1_interferer_CH1.wav'', Arr2 2 [[0, 0], [10, 10], [10, 10], [0, 0], [0, 0], [0, 0]]),
          (''out/S1_mixed_CH0.wav'', Arr2 2 [[0, 0], [21, 21], [22, 22], [0, 0], [0, 0]]),
          (''out/S1_target_CH0.wav'', Arr2 2 [[0, 0], [1, 1], [2, 2], [0, 0], [0, 0]]),
          (''out/S1_interferer_CH0.wav'', Arr2 2 [[0, 0], [20, 20], [20, 20], [0, 0], [0, 0]])],
        st_target_brir = Some (Arr2 2 [[1, 1], [0, 0]]), st_reference_log = [1] \<rparr>"
  by (simp add: channel_body_def example_ch1 example_ch0 example_snr example_utils_def
        ebind_def str_int_small)

lemma example_anechoic_brir:
  "read_signal example_renderer example_fs ''in/ds/rooms/brir/anech_brir_R_t_CH1.wav'' 0 (- 1) 0 False
     = Inr (Arr2 2 [[1, 1], [0, 0]])"
  by (simp add: read_signal_def example_fs_def example_renderer_fields Let_def frames_array_def)

lemma example_anechoic:
  "snd (apply_brir example_renderer (Arr1 [0, 1, 2, 0]) (Arr2 2 [[1, 1], [0, 0]]))
     = Inr (Arr2 2 [[0, 0], [1, 1], [2, 2], [0, 0], [0, 0]])"
  by (simp add: apply_brir_def example_renderer_fields ebind_def Let_def vstack_T_def
        py_slice_def py_index_def convolve_def)

lemma example_utils_fields:
  "pad example_utils = zero_pad" "sum_signals example_utils = sum_padded"
  "better_ear_speechweighted_snr example_utils = example_metric"
  by (simp_all add: example_utils_def)

lemma example_render:
  "render example_renderer example_utils example_fs ''T'' ''noise'' ''N'' ''R'' ''S1'' 0 0 ''ds'' 1 1
     = Inr example_result"
  by (simp add: render_def example_renderer_fields example_load example_loop ebind_def
        write_all_float example_result_def float_file_def example_anechoic_brir
        example_anechoic example_utils_fields Let_def del: efold.simps)

lemma example_loop_loud:
  "efold (channel_body example_renderer example_utils example_fs ''in/ds/rooms/brir/brir_R''
            ''out/S1'' (Arr1 [0, 1, 2, 0]) (Arr1 [0, 1, 1, 0]) (- 20) 1 1) [1, 0]
      \<lparr> st_snr_ref = None,
        st_outputs = [(''out/S1_target.wav'', Arr1 [0, 1, 2, 0]),
                      (''out/S1_interferer.wav'', Arr1 [0, 1, 1, 0])],
        st_target_brir = None, st_reference_log = [] \<rparr>
   = Inr \<lparr> st_snr_ref = Some 10,
        st_outputs = [(''out/S1_target.wav'', Arr1 [0, 1, 2, 0]),
                      (''out/S1_interferer.wav'', Arr1 [0, 1, 1, 0]),
          (''out/S1_mixed_CH1.wav'', Arr2 2 [[0, 0], [101, 101], [102, 102], [0, 0], [0, 0], [0, 0]]),
          (''out/S1_target_CH1.wav'', Arr2 2 [[0, 0], [1, 1], [2, 2], [0, 0], [0, 0], [0, 0]]),
          (''out/S1_interferer_CH1.wav'', Arr2 2 [[0, 0], [100, 100], [100, 100], [0, 0], [0, 0], [0, 0]]),
          (''out/S1_mixed_CH0.wav'', Arr2 2 [[0, 0], [201, 201], [202, 202], [0, 0], [0, 0]]),
          (''out/S1_target_CH0.wav'', Arr2 2 [[0, 0], [1, 1], [2, 2], [0, 0], [0, 0]]),
          (''out/S1_interferer_CH0.wav'', Arr2 2 [[0, 0], [200, 200], [200, 200], [0, 0], [0, 0]])],
        st_target_brir = Some (Arr2 2 [[1, 1], [0, 0]]), st_reference_log = [1] \<rparr>"
  by (simp add: channel_body_def example_ch1 example_ch0 example_snr example_utils_def
        ebind_def str_int_small)

lemma example_render_loud:
  "render example_renderer example_utils example_fs ''T'' ''noise'' ''N'' ''R'' ''S1'' 0 (- 20) ''ds'' 1 1
     = Inr loud_result"
  by (simp add: render_def example_renderer_fields example_load example_loop_loud ebind_def
        write_all_float loud_result_def float_file_def example_anechoic_brir
        example_anechoic example_utils_fields Let_def del: efold.simps)

text \<open>
  The example scene rendered at -20 dB: the gain is 10, the metric of the first channel's
  trimmed pair, the factor \<open>10 ^ (20 / 20)\<close> is 10, and every sample of both interferer
  files is the sample at the ear times 100.
\<close>

theorem render_reference_gain_witness:
  "render example_renderer example_utils example_fs ''T'' ''noise'' ''N'' ''R'' ''S1'' 0 (- 20) ''ds'' 1 1
     = Inr loud_result
   \<and> example_metric (Arr2 2 [[1, 1], [2, 2], [0, 0], [0, 0]])
                    (Arr2 2 [[1, 1], [1, 1], [0, 0], [0, 0]]) = 10
   \<and> reference_log loud_result = [1]
   \<and> map_of (writes loud_result) ''out/S1_interferer_CH1.wav''
       = Some (float_file (Arr2 2 [[0, 0], [100, 100], [100, 100], [0, 0], [0, 0], [0, 0]]))
   \<and> map_of (writes loud_result) ''out/S1_interferer_CH0.wav''
       = Some (float_file (Arr2 2 [[0, 0], [200, 200], [200, 200], [0, 0], [0, 0]]))"
proof -
  have ch: "channels example_renderer = 1 # [0]" by (simp add: example_renderer_fields)
  from render_reference_gain [OF example_render_loud ch]
  obtain t0 tgt i0 isig tb ib trows irows p q g where
    r1: "read_signal example_renderer example_fs
           (input_path example_renderer @ ''/'' @ ''ds'' @ ''/targets/'' @ ''T'' @ ''.wav'')
           0 (- 1) 0 False = Inr t0"
    and r2: "np_pad t0 1 1 = Inr tgt"
    and r3: "read_signal example_renderer example_fs
           (input_path example_renderer @ ''/'' @ ''ds'' @ ''/interferers/'' @ ''noise''
              @ ''/'' @ ''N'' @ ''.wav'') 0 (int (len tgt)) 0 True = Inr i0"
    and r4: "apply_ramp example_renderer i0 (ramp_duration example_renderer) = Inr isig"
    and r5: "read_signal example_renderer example_fs
           (input_path example_renderer @ ''/'' @ ''ds'' @ ''/rooms/brir/brir_'' @ ''R''
              @ ''_t_CH'' @ str_int 1 @ ''.wav'') 0 (- 1) 0 False = Inr tb"
    and r6: "read_signal example_renderer example_fs
           (input_path example_renderer @ ''/'' @ ''ds'' @ ''/rooms/brir/brir_'' @ ''R''
              @ ''_i1_CH'' @ str_int 1 @ ''.wav'') 0 (- 1) 0 False = Inr ib"
    and r7: "snd (apply_brir example_renderer tgt tb) = Inr (Arr2 2 trows)"
    and r8: "snd (apply_brir example_renderer isig ib) = Inr (Arr2 2 irows)"
    and p: "p = py_int (real_of_int (sample_rate example_renderer) * pre_duration example_renderer)"
    and q: "q = py_int (real_of_int (sample_rate example_renderer) * post_duration example_renderer)"
    and g: "g = better_ear_speechweighted_snr example_utils (Arr2 2 (py_slice p (- q) trows))
                                                           (Arr2 2 (py_slice p (- q) irows))"
    and lg: "reference_log loud_result = [1]"
    and all: "\<forall>ch\<in>set (channels example_renderer). \<exists>ib' rows'.
           read_signal example_renderer example_fs
             (input_path example_renderer @ ''/'' @ ''ds'' @ ''/rooms/brir/brir_'' @ ''R''
                @ ''_i1_CH'' @ str_int ch @ ''.wav'') 0 (- 1) 0 False = Inr ib'
         \<and> snd (apply_brir example_renderer isig ib') = Inr (Arr2 2 rows')
         \<and> map_of (writes loud_result)
             (output_path example_renderer @ ''/'' @ ''S1'' @ ''_interferer_CH'' @ str_int ch @ ''.wav'')
             = Some \<lparr> w_subtype = FLOAT,
                      w_data = Floats (Arr2 2
                        (map (map (\<lambda>x. x * g * 10 powr (real_of_int (- (- 20)) / 20))) rows')),
                      w_rate = sample_rate example_renderer \<rparr>"
    by blast
  have rd: "read_signal example_renderer example_fs ''in/ds/targets/T.wav'' 0 (- 1) 0 False
              = Inr (Arr1 [1, 2])"
    "read_signal example_renderer example_fs ''in/ds/interferers/noise/N.wav'' 0 4 0 True
              = Inr (Arr1 [1, 1, 1, 1])"
    "read_signal example_renderer example_fs ''in/ds/rooms/brir/brir_R_t_CH1.wav'' 0 (- 1) 0 False
              = Inr (Arr2 2 [[1, 1], [0, 0], [0, 0], [0, 0]])"
    "read_signal example_renderer example_fs ''in/ds/rooms/brir/brir_R_i1_CH1.wav'' 0 (- 1) 0 False
              = Inr (Arr2 2 [[1, 1], [0, 0], [0, 0], [0, 0]])"
    "read_signal example_renderer example_fs ''in/ds/rooms/brir/brir_R_i1_CH0.wav'' 0 (- 1) 0 False
              = Inr (Arr2 2 [[2, 2], [0, 0]])"
    by (simp_all add: read_signal_def example_fs_def example_renderer_fields Let_def
          frames_array_def py_index_def)
  have ab: "snd (apply_brir example_renderer (Arr1 [0, 1, 2, 0]) (Arr2 2 [[1, 1], [0, 0], [0, 0], [0, 0]]))
              = Inr (Arr2 2 [[0, 0], [1, 1], [2, 2], [0, 0], [0, 0], [0, 0]])"
    "snd (apply_brir example_renderer (Arr1 [0, 1, 1, 0]) (Arr2 2 [[1, 1], [0, 0], [0, 0], [0, 0]]))
              = Inr (Arr2 2 [[0, 0], [1, 1], [1, 1], [0, 0], [0, 0], [0, 0]])"
    "snd (apply_brir example_renderer (Arr1 [0, 1, 1, 0]) (Arr2 2 [[2, 2], [0, 0]]))
              = Inr (Arr2 2 [[0, 0], [2, 2], [2, 2], [0, 0], [0, 0]])"
    by (simp_all add: apply_brir_def example_renderer_fields ebind_def Let_def vstack_T_def
          py_slice_def py_index_def convolve_def)
  from r1 have t0: "t0 = Arr1 [1, 2]" by (simp add: example_renderer_fields rd)
  from r2 have tgt: "tgt = Arr1 [0, 1, 2, 0]" unfolding t0 by (simp add: np_pad_def)
  from r3 have i0: "i0 = Arr1 [1, 1, 1, 1]" unfolding tgt by (simp add: example_renderer_fields rd)
  from r4 have isig: "isig = Arr1 [0, 1, 1, 0]"
    unfolding i0
    by (simp add: example_renderer_fields apply_ramp_def ramp_window_def linspace_def py_int_def
          py_index_def bcast_mul_list_def Let_def ebind_def)
  from r5 have tb: "tb = Arr2 2 [[1, 1], [0, 0], [0, 0], [0, 0]]"
    by (simp add: example_renderer_fields str_int_small rd)
  from r6 have ib: "ib = Arr2 2 [[1, 1], [0, 0], [0, 0], [0, 0]]"
    by (simp add: example_renderer_fields str_int_small rd)
  from r7 have trows: "trows = [[0, 0], [1, 1], [2, 2], [0, 0], [0, 0], [0, 0]]"
    unfolding tgt tb by (simp add: ab)
  from r8 have irows: "irows = [[0, 0], [1, 1], [1, 1], [0, 0], [0, 0], [0, 0]]"
    unfolding isig ib by (simp add: ab)
  have pq: "p = 1" "q = 1"
    unfolding p q by (simp_all add: example_renderer_fields py_int_def)
  have segs: "py_slice p (- q) trows = [[1, 1], [2, 2], [0, 0], [0, 0]]"
    "py_slice p (- q) irows = [[1, 1], [1, 1], [0, 0], [0, 0]]"
    unfolding pq trows irows by (simp_all add: py_slice_def py_index_def)
  from g have gm: "g = example_metric (Arr2 2 [[1, 1], [2, 2], [0, 0], [0, 0]])
                                      (Arr2 2 [[1, 1], [1, 1], [0, 0], [0, 0]])"
    unfolding segs by (simp add: example_utils_fields)
  have g10: "g = 10" unfolding gm by (simp add: example_metric_def)
  from all have a1: "map_of (writes loud_result) ''out/S1_interferer_CH1.wav''
       = Some (float_file (Arr2 2 [[0, 0], [100, 100], [100, 100], [0, 0], [0, 0], [0, 0]]))"
    unfolding isig g10 ch
    by (simp add: rd ab example_renderer_fields str_int_small float_file_def)
  from all have a0: "map_of (writes loud_result) ''out/S1_interferer_CH0.wav''
       = Some (float_file (Arr2 2 [[0, 0], [200, 200], [200, 200], [0, 0], [0, 0]]))"
    unfolding isig g10 ch
    by (simp add: rd ab example_renderer_fields str_int_small float_file_def)
  from example_render_loud gm [symmetric] g10 lg a1 a0 show ?thesis by simp
qed

text \<open>
  On the example scene the anechoic BRIR keeps the two rows of the target BRIR of channel 0,
  and the anechoic target has five rows.
\<close>

theorem render_anechoic_length_witness:
  "read_signal example_renderer example_fs ''in/ds/rooms/brir/brir_R_t_CH0.wav'' 0 (- 1) 0 False
     = Inr (Arr2 2 [[1, 1], [0, 0]])
   \<and> last (writes example_result)
       = (''out/S1_target_anechoic.wav'',
          float_file (Arr2 2 [[0, 0], [1, 1], [2, 2], [0, 0], [0, 0]]))"
proof -
  have h: "channels example_renderer = [] \<or> last (channels example_renderer) = 0"
    by (simp add: example_renderer_fields)
  have r0: "read_signal example_renderer example_fs ''in/ds/rooms/brir/brir_R_t_CH0.wav'' 0 (- 1) 0 False
     = Inr (Arr2 2 [[1, 1], [0, 0]])"
    by (simp add: read_signal_def example_fs_def example_renderer_fields Let_def frames_array_def)
  have n0: "input_path example_renderer @ ''/'' @ ''ds'' @ ''/rooms/brir/brir_'' @ ''R'' @ ''_t_CH0.wav''
              = ''in/ds/rooms/brir/brir_R_t_CH0.wav''"
    and n1: "input_path example_renderer @ ''/'' @ ''ds'' @ ''/rooms/brir/anech_brir_'' @ ''R'' @ ''_t_CH1.wav''
              = ''in/ds/rooms/brir/anech_brir_R_t_CH1.wav''"
    and n2: "output_path example_renderer @ ''/'' @ ''S1'' @ ''_target_anechoic.wav''
              = ''out/S1_target_anechoic.wav''"
    by (simp_all add: example_renderer_fields)
  from render_anechoic_length [OF example_render h] obtain tgt isig tb0 ab abp ta where
    ld: "load_scene example_renderer example_fs ''T'' ''noise'' ''N'' 0 ''ds'' 1 1 = Inr (tgt, isig)"
    and tb0: "read_signal example_renderer example_fs ''in/ds/rooms/brir/brir_R_t_CH0.wav''
                0 (- 1) 0 False = Inr tb0"
    and ab: "read_signal example_renderer example_fs ''in/ds/rooms/brir/anech_brir_R_t_CH1.wav''
                0 (- 1) 0 False = Inr ab"
    and pd: "pad example_utils ab (len tb0) = Inr abp"
    and ta: "snd (apply_brir example_renderer tgt abp) = Inr ta"
    and lw: "last (writes example_result) = (''out/S1_target_anechoic.wav'',
          \<lparr> w_subtype = FLOAT, w_data = Floats ta, w_rate = sample_rate example_renderer \<rparr>)"
    unfolding n0 n1 n2 by blast
  from ld have t: "tgt = Arr1 [0, 1, 2, 0]" by (simp add: example_load)
  from tb0 r0 have b0: "tb0 = Arr2 2 [[1, 1], [0, 0]]" by simp
  from ab have a: "ab = Arr2 2 [[1, 1], [0, 0]]" by (simp add: example_anechoic_brir)
  from pd have p: "abp = Arr2 2 [[1, 1], [0, 0]]"
    unfolding a b0 by (simp add: example_utils_fields)
  from ta have "ta = Arr2 2 [[0, 0], [1, 1], [2, 2], [0, 0], [0, 0]]"
    unfolding t p by (simp add: example_anechoic)
  with lw r0 show ?thesis by (simp add: float_file_def example_renderer_fields)
qed

text \<open>
  Claim C2 as stated fails on the example scene: the target BRIR of channel 1 has four rows
  and that of channel 0 has two. Padding the anechoic BRIR to four rows and convolving would
  give six rows; the file written has five, the result for two rows.
\<close>

theorem render_anechoic_length_counterexample:
  "render example_renderer example_utils example_fs ''T'' ''noise'' ''N'' ''R'' ''S1'' 0 0 ''ds'' 1 1
     = Inr example_result
   \<and> last (writes example_result)
       = (''out/S1_target_anechoic.wav'',
          float_file (Arr2 2 [[0, 0], [1, 1], [2, 2], [0, 0], [0, 0]]))
   \<and> read_signal example_renderer example_fs ''in/ds/rooms/brir/brir_R_t_CH1.wav'' 0 (- 1) 0 False
       = Inr (Arr2 2 [[1, 1], [0, 0], [0, 0], [0, 0]])
   \<and> zero_pad (Arr2 2 [[1, 1], [0, 0]]) (len (Arr2 2 [[1, 1], [0, 0], [0, 0], [0, 0::real]]))
       = Inr (Arr2 2 [[1, 1], [0, 0], [0, 0], [0, 0]])
   \<and> snd (apply_brir example_renderer (Arr1 [0, 1, 2, 0]) (Arr2 2 [[1, 1], [0, 0], [0, 0], [0, 0]]))
       = Inr (Arr2 2 [[0, 0], [1, 1], [2, 2], [0, 0], [0, 0], [0, 0]])
   \<and> Arr2 2 [[0, 0], [1, 1], [2, 2], [0, 0], [0, 0], [0, 0::real]]
       \<noteq> Arr2 2 [[0, 0], [1, 1], [2, 2], [0, 0], [0, 0]]"
proof -
  have 1: "read_signal example_renderer example_fs ''in/ds/rooms/brir/brir_R_t_CH1.wav'' 0 (- 1) 0 False
       = Inr (Arr2 2 [[1, 1], [0, 0], [0, 0], [0, 0]])"
    by (simp add: read_signal_def example_fs_def example_renderer_fields Let_def frames_array_def)
  have 2: "snd (apply_brir example_renderer (Arr1 [0, 1, 2, 0]) (Arr2 2 [[1, 1], [0, 0], [0, 0], [0, 0]]))
       = Inr (Arr2 2 [[0, 0], [1, 1], [2, 2], [0, 0], [0, 0], [0, 0]])"
    by (simp add: apply_brir_def example_renderer_fields ebind_def Let_def vstack_T_def
        py_slice_def py_index_def convolve_def)
  have 3: "last (writes example_result)
       = (''out/S1_target_anechoic.wav'',
          float_file (Arr2 2 [[0, 0], [1, 1], [2, 2], [0, 0], [0, 0]]))"
    by (simp add: example_result_def)
  have 4: "zero_pad (Arr2 2 [[1, 1], [0, 0]]) (len (Arr2 2 [[1, 1], [0, 0], [0, 0], [0, 0::real]]))
       = Inr (Arr2 2 [[1, 1], [0, 0], [0, 0], [0, 0]])"
    by (simp add: eval_nat_numeral)
  from example_render 1 2 3 4 show ?thesis by simp
qed


end
